theory Spec2Isabelle
  imports Main
begin

section \<open>Data model (db.py)\<close>

text \<open>
  Instants (Python \<open>datetime\<close> values in UTC) are integers counting microseconds since
  the epoch; a \<open>timedelta\<close> is a number of microseconds.
\<close>

type_synonym datetime = int

datatype StorageType = LOCAL | GDRIVE

datatype TaskStatus = PENDING | SCHEDULED | DOWNLOADING | PRINTING | COMPLETED | FAILED

text \<open>
  One row of table \<open>tasks\<close>. Column \<open>id\<close> is field \<open>task_id\<close>. \<open>storage_type\<close> is a
  nullable column and \<open>print_file_task\<close> has a branch for a value that is neither
  \<open>LOCAL\<close> nor \<open>GDRIVE\<close>, so it is an option. A null or empty \<open>page_size\<close> is the
  empty string (the code only tests its truthiness).
\<close>

record Task =
  task_id :: int
  original_filename :: string
  uploader_email :: string
  storage_type :: "StorageType option"
  file_identifier :: string
  gdrive_download_path :: "string option"
  time_to_print :: datetime
  color_mode :: string
  page_size :: string
  status :: TaskStatus
  created_at :: datetime
  error_message :: "string option"

text \<open>Exceptions carry the text that \<open>str(e)\<close> returns.\<close>

datatype exn =
    ConnectionError string
  | ValueError string
  | OSError string
  | OverflowError string
  | JobLookupError string
  | Exception string

fun str_exn :: "exn \<Rightarrow> string" where
  "str_exn (ConnectionError m) = m"
| "str_exn (ValueError m) = m"
| "str_exn (OSError m) = m"
| "str_exn (OverflowError m) = m"
| "str_exn (JobLookupError m) = m"
| "str_exn (Exception m) = m"

text \<open>
  A pending scheduler job: its id, its run date and the handler with the arguments it
  will be called with (the scheduler object that \<open>prepare_gdrive_download_task\<close> also
  receives is the one holding the job).
\<close>

datatype job_func =
    PrepareGdriveDownload int string
  | PrintFile int "string option"

record job =
  job_id :: string
  run_date :: datetime
  func :: job_func

text \<open>What \<open>subprocess.run\<close> returns: return code, stdout, stderr.\<close>

record CompletedProcess =
  returncode :: int
  stdout :: string
  stderr :: string

text \<open>
  The state the program acts on: the committed rows of table \<open>tasks\<close>, the paths
  present on the local disk and those among them that \<open>os.remove\<close> cannot delete, the
  objects held by the remote store, the scheduler's pending jobs, and the calls made so
  far to \<open>send_email\<close> (recipient, subject, body), to the SMTP server and to
  \<open>subprocess.run\<close> (the command line).
\<close>

record world =
  db_tasks :: "Task list"
  files :: "string set"
  undeletable :: "string set"
  gdrive_files :: "string set"
  jobs :: "job list"
  send_email_calls :: "(string \<times> string \<times> string) list"
  smtp_sent :: "(string \<times> string \<times> string) list"
  subprocess_calls :: "string list list"

text \<open>How a download through the Drive API ends (helper.py, lines 67 to 83).\<close>

datatype download_outcome =
    Downloaded
  | DownloadFailed bool exn
    \<comment> \<open>the flag says whether the destination file had been opened before the failure\<close>

text \<open>
  The behaviour of the external collaborators and of the process configuration during
  one request or one handler run.
\<close>

record env =
  created_at_default :: datetime
    \<comment> \<open>db.py line 50: \<open>default=datetime.now(timezone.utc)\<close>, evaluated once, when db.py is imported\<close>
  PRINTER_NAME :: "string option"
  GDRIVE_FOLDER_ID :: "string option"
  gdrive_service :: bool
    \<comment> \<open>\<open>get_gdrive_service()\<close> returns a service object\<close>
  files_create :: "exn + string"
    \<comment> \<open>\<open>service.files().create(...).execute()\<close>: raises, or returns the new object's id\<close>
  files_get_media :: download_outcome
  smtp_settings :: bool
    \<comment> \<open>all five SMTP settings are set\<close>
  smtp_delivers :: bool
    \<comment> \<open>the SMTP conversation of \<open>send_email\<close> runs without an exception\<close>
  subprocess_run :: "string list \<Rightarrow> exn + CompletedProcess"
  timestamp_str :: "datetime \<Rightarrow> string"
    \<comment> \<open>the text of \<open>datetime.timestamp()\<close> inside an f-string (a float's \<open>str\<close>)\<close>

section \<open>Strings and paths\<close>

fun str_nat :: "nat \<Rightarrow> string" where
  "str_nat n =
     (if n < 10 then [''0123456789'' ! n]
      else str_nat (n div 10) @ [''0123456789'' ! (n mod 10)])"

declare str_nat.simps [simp del]

definition str_int :: "int \<Rightarrow> string" where
  "str_int i = (if i < 0 then CHR ''-'' # str_nat (nat (- i)) else str_nat (nat i))"

definition squote :: string where
  "squote = [CHR 0x27]"

definition newline :: string where
  "newline = [CHR 0x0A]"

text \<open>\<open>os.path.join\<close> on two components (posixpath).\<close>

definition os_path_join :: "string \<Rightarrow> string \<Rightarrow> string" where
  "os_path_join a b =
     (if take 1 b = ''/'' then b
      else if a = [] \<or> drop (length a - 1) a = ''/'' then a @ b
      else a @ ''/'' @ b)"

section \<open>Local disk\<close>

definition os_path_exists :: "string \<Rightarrow> world \<Rightarrow> bool" where
  "os_path_exists p w = (p \<in> files w)"

definition os_remove :: "string \<Rightarrow> world \<Rightarrow> exn + world" where
  "os_remove p w =
     (if p \<notin> files w then Inl (OSError (''[Errno 2] No such file or directory: '' @ squote @ p @ squote))
      else if p \<in> undeletable w then Inl (OSError (''[Errno 13] Permission denied: '' @ squote @ p @ squote))
      else Inr (w\<lparr>files := files w - {p}\<rparr>))"

section \<open>Task store\<close>

text \<open>\<open>db.query(Task).filter(Task.id == task_id).first()\<close>\<close>

definition get_task :: "int \<Rightarrow> world \<Rightarrow> Task option" where
  "get_task i w = find (\<lambda>t. task_id t = i) (db_tasks w)"

text \<open>
  \<open>db.commit()\<close> after the session's task object has been mutated to \<open>t\<close>: the row with
  that id is replaced. A handler that closes its session without a commit leaves the
  table as it was.
\<close>

definition commit :: "Task \<Rightarrow> world \<Rightarrow> world" where
  "commit t w =
     w\<lparr>db_tasks := map (\<lambda>r. if task_id r = task_id t then t else r) (db_tasks w)\<rparr>"

section \<open>Scheduler\<close>

text \<open>\<open>add_job(..., id=k, replace_existing=True)\<close> and \<open>remove_job(k)\<close>.\<close>

definition add_job :: "job \<Rightarrow> job list \<Rightarrow> job list" where
  "add_job j js =
     (if job_id j \<in> set (map job_id js)
      then map (\<lambda>k. if job_id k = job_id j then j else k) js
      else js @ [j])"

definition remove_job :: "string \<Rightarrow> job list \<Rightarrow> exn + job list" where
  "remove_job k js =
     (if k \<in> set (map job_id js) then Inr (filter (\<lambda>j. job_id j \<noteq> k) js)
      else Inl (JobLookupError (''No job by the id of '' @ k @ '' was found'')))"

section \<open>helper.py\<close>

definition upload_to_gdrive :: "env \<Rightarrow> string \<Rightarrow> string \<Rightarrow> world \<Rightarrow> (exn + string) \<times> world" where
  "upload_to_gdrive e file_path filename w =
     (if \<not> gdrive_service e
      then (Inl (ConnectionError ''Google Drive service not available for upload.''), w)
      else if GDRIVE_FOLDER_ID e = None \<or> GDRIVE_FOLDER_ID e = Some []
      then (Inl (ValueError ''GDRIVE_FOLDER_ID not configured for upload.''), w)
      else (case files_create e of
              Inl ex \<Rightarrow> (Inl ex, w)
            | Inr file_id \<Rightarrow> (Inr file_id, w\<lparr>gdrive_files := insert file_id (gdrive_files w)\<rparr>)))"

definition download_from_gdrive :: "env \<Rightarrow> string \<Rightarrow> string \<Rightarrow> world \<Rightarrow> (exn + string) \<times> world" where
  "download_from_gdrive e file_id destination_path w =
     (if \<not> gdrive_service e
      then (Inl (ConnectionError ''Google Drive service not available for download.''), w)
      else (case files_get_media e of
              Downloaded \<Rightarrow> (Inr destination_path, w\<lparr>files := insert destination_path (files w)\<rparr>)
            | DownloadFailed opened ex \<Rightarrow>
                (let w1 = (if opened then w\<lparr>files := insert destination_path (files w)\<rparr> else w) in
                 if os_path_exists destination_path w1
                 then (case os_remove destination_path w1 of
                         Inl ex_remove \<Rightarrow> (Inl ex_remove, w1)
                       | Inr w2 \<Rightarrow> (Inl ex, w2))
                 else (Inl ex, w1))))"

definition send_email :: "env \<Rightarrow> string \<Rightarrow> string \<Rightarrow> string \<Rightarrow> world \<Rightarrow> bool \<times> world" where
  "send_email e to_email subject body w =
     (let w1 = w\<lparr>send_email_calls := send_email_calls w @ [(to_email, subject, body)]\<rparr> in
      if \<not> smtp_settings e then (False, w1)
      else if smtp_delivers e
      then (True, w1\<lparr>smtp_sent := smtp_sent w1 @ [(to_email, subject, body)]\<rparr>)
      else (False, w1))"

section \<open>The download handler (db.py, \<open>prepare_gdrive_download_task\<close>)\<close>

definition download_failure_subject :: "Task \<Rightarrow> string" where
  "download_failure_subject task = ''Print Task Failed: '' @ original_filename task"

definition download_failure_body :: "Task \<Rightarrow> exn \<Rightarrow> string" where
  "download_failure_body task ex =
     ''Hello,'' @ newline @ newline @ ''The file '' @ squote @ original_filename task @ squote
       @ '' scheduled for printing could not be downloaded from Google Drive.'' @ newline
       @ ''Error: '' @ str_exn ex @ newline @ newline
       @ ''You may need to print this file manually.'' @ newline
       @ ''Task ID: '' @ str_int (task_id task)"

definition print_job_key :: "int \<Rightarrow> string" where
  "print_job_key i = ''print_task_'' @ str_int i"

definition download_job_key :: "int \<Rightarrow> string" where
  "download_job_key i = ''download_task_'' @ str_int i"

text \<open>
  Lines 108 to 112: the task's print job is removed from the scheduler; the
  JobLookupError of a job that is not pending is caught.
\<close>

definition cancel_print_job :: "int \<Rightarrow> world \<Rightarrow> world" where
  "cancel_print_job i w =
     (case remove_job (print_job_key i) (jobs w) of
        Inr js \<Rightarrow> w\<lparr>jobs := js\<rparr>
      | Inl ex \<Rightarrow> w)"

definition prepare_gdrive_download_task :: "env \<Rightarrow> int \<Rightarrow> string \<Rightarrow> world \<Rightarrow> world" where
  "prepare_gdrive_download_task e tid gdrive_download_full_path_val w =
     (case get_task tid w of
        None \<Rightarrow> w
      | Some task \<Rightarrow>
          if status task = FAILED then w
          else if storage_type task \<noteq> Some GDRIVE then w
          else
            let task1 = task\<lparr>status := DOWNLOADING\<rparr>;
                w1 = commit task1 w;
                download_destination =
                  os_path_join gdrive_download_full_path_val
                    (''task_'' @ str_int (task_id task1) @ ''_'' @ original_filename task1)
            in (case download_from_gdrive e (file_identifier task1) download_destination w1 of
                  (Inr _, w2) \<Rightarrow>
                    commit (task1\<lparr>gdrive_download_path := Some download_destination,
                                  status := SCHEDULED\<rparr>) w2
                | (Inl ex, w2) \<Rightarrow>
                    let task2 = task1\<lparr>status := FAILED, error_message := Some (str_exn ex)\<rparr>;
                        w3 = snd (send_email e (uploader_email task2)
                                    (download_failure_subject task2)
                                    (download_failure_body task2 ex) w2);
                        w4 = cancel_print_job (task_id task2) w3
                    in commit task2 w4))"

section \<open>The print handler (db.py, \<open>print_file_task\<close>)\<close>

definition print_command_of :: "Task \<Rightarrow> string \<Rightarrow> string \<Rightarrow> string list" where
  "print_command_of task printer_name file_to_print_path =
     [''lp'', ''-d'', printer_name]
       @ (if page_size task \<noteq> [] then [''-o'', ''media='' @ page_size task] else [])
       @ (if color_mode task = ''color'' then [''-o'', ''ColorModel=CMYK'']
          else if color_mode task = ''bw'' then [''-o'', ''ColorModel=Gray'']
          else [])
       @ [file_to_print_path]"

text \<open>
  Lines 183 to 226: the file has been resolved and exists. \<open>is_gdrive_downloaded_file\<close>
  says that it is the staged copy of a GDRIVE task.
\<close>

definition submit_and_cleanup :: "env \<Rightarrow> Task \<Rightarrow> string \<Rightarrow> string \<Rightarrow> bool \<Rightarrow> world \<Rightarrow> world" where
  "submit_and_cleanup e task printer_name file_to_print_path is_gdrive_downloaded_file w =
     (let task1 = task\<lparr>status := PRINTING\<rparr>;
          w1 = commit task1 w;
          print_command = print_command_of task1 printer_name file_to_print_path;
          w2 = w1\<lparr>subprocess_calls := subprocess_calls w1 @ [print_command]\<rparr>;
          task2 =
            (case subprocess_run e print_command of
               Inr process \<Rightarrow>
                 if returncode process = 0 then task1\<lparr>status := COMPLETED\<rparr>
                 else task1\<lparr>status := FAILED,
                            error_message := Some
                              (if stderr process \<noteq> [] then stderr process
                               else if stdout process \<noteq> [] then stdout process
                               else ''Unknown printing error'')\<rparr>
             | Inl ex \<Rightarrow> task1\<lparr>status := FAILED, error_message := Some (str_exn ex)\<rparr>);
          w3 = commit task2 w2
      in if is_gdrive_downloaded_file \<and> os_path_exists file_to_print_path w3
         then (case os_remove file_to_print_path w3 of
                 Inr w4 \<Rightarrow> commit (task2\<lparr>gdrive_download_path := None\<rparr>) w4
               | Inl e_remove \<Rightarrow> w3)
         else w3)"

definition fail_task :: "Task \<Rightarrow> string \<Rightarrow> world \<Rightarrow> world" where
  "fail_task task msg w = commit (task\<lparr>status := FAILED, error_message := Some msg\<rparr>) w"

text \<open>
  Lines 152 to 172: the path to print and whether it is a downloaded GDRIVE copy, or the
  error message the task fails with.
\<close>

definition resolve_file :: "Task \<Rightarrow> world \<Rightarrow> string + (string \<times> bool)" where
  "resolve_file task w =
     (case storage_type task of
        Some GDRIVE \<Rightarrow>
          (case gdrive_download_path task of
             Some p \<Rightarrow>
               if p \<noteq> [] \<and> os_path_exists p w then Inr (p, True)
               else Inl (''GDrive file '' @ original_filename task @ '' (ID: '' @ file_identifier task
                           @ '') not found locally at expected path '' @ p
                           @ ''. Download may have failed or path is incorrect.'')
           | None \<Rightarrow>
               Inl (''GDrive file '' @ original_filename task @ '' (ID: '' @ file_identifier task
                      @ '') not found locally at expected path None''
                      @ ''. Download may have failed or path is incorrect.''))
      | Some LOCAL \<Rightarrow> Inr (file_identifier task, False)
      | None \<Rightarrow> Inl ''Unknown storage type.'')"

definition print_file_task :: "env \<Rightarrow> int \<Rightarrow> string option \<Rightarrow> world \<Rightarrow> world" where
  "print_file_task e tid printer_name_val w =
     (case get_task tid w of
        None \<Rightarrow> w
      | Some task \<Rightarrow>
          if status task = FAILED then w
          else if status task = DOWNLOADING
          then fail_task task
                 ''Print task ran while file was still in downloading state or download failed to update status.'' w
          else
            (case printer_name_val of
               None \<Rightarrow> fail_task task ''Printer name not configured (passed as empty).'' w
             | Some printer_name \<Rightarrow>
                 if printer_name = [] then fail_task task ''Printer name not configured (passed as empty).'' w
                 else
                   (case resolve_file task w of
                      Inl error_msg \<Rightarrow> fail_task task error_msg w
                    | Inr (file_to_print_path, is_gdrive_downloaded_file) \<Rightarrow>
                        if \<not> os_path_exists file_to_print_path w
                        then fail_task task
                               (''File not found at '' @ file_to_print_path @ '' for task ''
                                  @ str_int tid @ ''.'') w
                        else submit_and_cleanup e task printer_name file_to_print_path
                               is_gdrive_downloaded_file w)))"

section \<open>Submission (backend.py, \<open>add_task\<close>)\<close>

definition MAX_FILE_SIZE_BYTES :: nat where
  "MAX_FILE_SIZE_BYTES = 5 * 1024 * 1024"

definition LOCAL_STORAGE_PATH :: string where
  "LOCAL_STORAGE_PATH = ''uploads''"

definition GDRIVE_DOWNLOAD_FULL_PATH :: string where
  "GDRIVE_DOWNLOAD_FULL_PATH = os_path_join LOCAL_STORAGE_PATH ''gdrive_downloads''"

definition minutes :: "int \<Rightarrow> int" where
  "minutes n = n * 60000000"

definition seconds :: "int \<Rightarrow> int" where
  "seconds n = n * 1000000"

text \<open>
  \<open>datetime.fromtimestamp(ts, tz=timezone.utc)\<close> on an integer (CPython, 64-bit glibc):
  OverflowError outside \<open>time_t\<close>, OSError where \<open>gmtime\<close> cannot represent the year,
  ValueError where the year is outside 1 to 9999. The caller reads none of the messages.
\<close>

definition datetime_fromtimestamp :: "int \<Rightarrow> exn + datetime" where
  "datetime_fromtimestamp ts =
     (if ts < - (2 ^ 63) \<or> 2 ^ 63 \<le> ts
      then Inl (OverflowError ''timestamp out of range for platform time_t'')
      else if ts < - 67768040609740800 \<or> 67768036191676799 < ts
      then Inl (OSError ''[Errno 75] Value too large for defined data type'')
      else if ts < - 62135596800 \<or> 253402300799 < ts
      then Inl (ValueError ''year is out of range'')
      else Inr (seconds ts))"

text \<open>What the request ends with when no task is returned.\<close>

datatype failure = HTTPException int string | Uncaught exn

record UploadFile =
  filename :: string
  content_length :: nat

text \<open>
  The readings of \<open>datetime.now(timezone.utc)\<close> during one request, by line of
  backend.py: 84 (temporary name), 115 (local name), 128 (validation), 151 and 153
  (download time).
\<close>

record clock =
  now_84 :: datetime
  now_115 :: datetime
  now_128 :: datetime
  now_151 :: datetime
  now_153 :: datetime

text \<open>
  \<open>shutil.move\<close>: a rename. Where the source cannot be unlinked the rename fails, the
  fallback copies the file to the destination and its unlink of the source raises.
\<close>

definition shutil_move :: "string \<Rightarrow> string \<Rightarrow> world \<Rightarrow> exn option \<times> world" where
  "shutil_move src dst w =
     (if src \<notin> files w
      then (Some (OSError (''[Errno 2] No such file or directory: '' @ squote @ src @ squote)), w)
      else if src \<in> undeletable w
      then (Some (OSError (''[Errno 13] Permission denied: '' @ squote @ src @ squote)),
            w\<lparr>files := insert dst (files w)\<rparr>)
      else (None, w\<lparr>files := insert dst (files w - {src})\<rparr>))"

definition gdrive_service_available :: "env \<Rightarrow> bool" where
  "gdrive_service_available e = (gdrive_service e \<and> GDRIVE_FOLDER_ID e \<noteq> None)"

text \<open>Lines 110 to 113, the \<open>except\<close> clause around the upload.\<close>

definition upload_failed :: "exn \<Rightarrow> string \<Rightarrow> world \<Rightarrow> failure \<times> world" where
  "upload_failed ex temp_file_path w =
     (case os_remove temp_file_path w of
        Inl ex_remove \<Rightarrow> (Uncaught ex_remove, w)
      | Inr w1 \<Rightarrow> (HTTPException 500 (''Google Drive upload failed: '' @ str_exn ex), w1))"

text \<open>Lines 99 to 119: where the uploaded file is kept.\<close>

definition store_file ::
  "env \<Rightarrow> clock \<Rightarrow> UploadFile \<Rightarrow> string \<Rightarrow> world \<Rightarrow> (failure + StorageType \<times> string) \<times> world" where
  "store_file e clk file temp_file_path w =
     (if content_length file > MAX_FILE_SIZE_BYTES then
        if \<not> gdrive_service_available e then
          (case os_remove temp_file_path w of
             Inl ex \<Rightarrow> (Inl (Uncaught ex), w)
           | Inr w1 \<Rightarrow>
               (Inl (HTTPException 500
                  ''File is large, but Google Drive is not configured/available for upload.''), w1))
        else
          (case upload_to_gdrive e temp_file_path (filename file) w of
             (Inr gdrive_file_id, w1) \<Rightarrow>
               (case os_remove temp_file_path w1 of
                  Inr w2 \<Rightarrow> (Inr (GDRIVE, gdrive_file_id), w2)
                | Inl ex \<Rightarrow> (case upload_failed ex temp_file_path w1 of (f, w2) \<Rightarrow> (Inl f, w2)))
           | (Inl ex, w1) \<Rightarrow>
               (case upload_failed ex temp_file_path w1 of (f, w2) \<Rightarrow> (Inl f, w2)))
      else
        (let final_local_path =
               os_path_join LOCAL_STORAGE_PATH
                 (''local_'' @ timestamp_str e (now_115 clk) @ ''_'' @ filename file)
         in case shutil_move temp_file_path final_local_path w of
              (Some ex, w1) \<Rightarrow> (Inl (Uncaught ex), w1)
            | (None, w1) \<Rightarrow> (Inr (LOCAL, final_local_path), w1)))"

text \<open>
  Lines 124 to 126 and 129 to 131: a rejected print time deletes the file of a LOCAL
  submission, then raises the 400 error.
\<close>

definition reject_time :: "StorageType \<Rightarrow> string \<Rightarrow> string \<Rightarrow> world \<Rightarrow> failure \<times> world" where
  "reject_time storage_type_val file_identifier_val detail w =
     (if storage_type_val = LOCAL \<and> os_path_exists file_identifier_val w
      then (case os_remove file_identifier_val w of
              Inl ex \<Rightarrow> (Uncaught ex, w)
            | Inr w1 \<Rightarrow> (HTTPException 400 detail, w1))
      else (HTTPException 400 detail, w))"

text \<open>The id the store gives a new row: one more than the largest id in the table.\<close>

definition next_id :: "Task list \<Rightarrow> int" where
  "next_id ts = fold max (map task_id ts) 0 + 1"

text \<open>Lines 133 to 183: the record is created and its actions are scheduled.\<close>

definition create_and_schedule ::
  "env \<Rightarrow> clock \<Rightarrow> UploadFile \<Rightarrow> string \<Rightarrow> string \<Rightarrow> string \<Rightarrow> StorageType \<Rightarrow> string \<Rightarrow> datetime
     \<Rightarrow> world \<Rightarrow> Task \<times> world" where
  "create_and_schedule e clk file color_mode_val page_size_val uploader_email_val
       storage_type_val file_identifier_val print_datetime w =
     (let new_task =
            \<lparr>task_id = next_id (db_tasks w),
             original_filename = filename file,
             uploader_email = uploader_email_val,
             storage_type = Some storage_type_val,
             file_identifier = file_identifier_val,
             gdrive_download_path = None,
             time_to_print = print_datetime,
             color_mode = color_mode_val,
             page_size = page_size_val,
             status = SCHEDULED,
             created_at = created_at_default e,
             error_message = None\<rparr>;
          w1 = w\<lparr>db_tasks := db_tasks w @ [new_task]\<rparr>;
          print_job_id = print_job_key (task_id new_task);
          w2 =
            (if storage_type new_task = Some GDRIVE then
               (let download_time0 = print_datetime - minutes 10;
                    download_time =
                      (if download_time0 \<le> now_151 clk then now_153 clk + seconds 5
                       else download_time0)
                in w1\<lparr>jobs :=
                        add_job
                          \<lparr>job_id = download_job_key (task_id new_task),
                           run_date = download_time,
                           func = PrepareGdriveDownload (task_id new_task) GDRIVE_DOWNLOAD_FULL_PATH\<rparr>
                          (jobs w1)\<rparr>)
             else w1);
          w3 = w2\<lparr>jobs :=
                    add_job
                      \<lparr>job_id = print_job_id,
                       run_date = print_datetime,
                       func = PrintFile (task_id new_task) (PRINTER_NAME e)\<rparr>
                      (jobs w2)\<rparr>
      in (new_task, w3))"

definition add_task ::
  "env \<Rightarrow> clock \<Rightarrow> UploadFile \<Rightarrow> int \<Rightarrow> string \<Rightarrow> string \<Rightarrow> string \<Rightarrow> world
     \<Rightarrow> (failure + Task) \<times> world" where
  "add_task e clk file time_to_print_ts color_mode_val page_size_val uploader_email_val w =
     (if color_mode_val \<noteq> ''color'' \<and> color_mode_val \<noteq> ''bw''
      then (Inl (HTTPException 400
                   (''Invalid color_mode. Must be '' @ squote @ ''color'' @ squote @ '' or ''
                      @ squote @ ''bw'' @ squote @ ''.'')), w)
      else if uploader_email_val = []
      then (Inl (HTTPException 400 ''uploader_email is required.''), w)
      else
        (let temp_file_path =
               os_path_join LOCAL_STORAGE_PATH
                 (''temp_'' @ timestamp_str e (now_84 clk) @ ''_'' @ filename file);
             w1 = w\<lparr>files := insert temp_file_path (files w)\<rparr>
         in case store_file e clk file temp_file_path w1 of
              (Inl f, w2) \<Rightarrow> (Inl f, w2)
            | (Inr (storage_type_val, file_identifier_val), w2) \<Rightarrow>
                (case datetime_fromtimestamp time_to_print_ts of
                   Inl (ValueError m) \<Rightarrow>
                     (case reject_time storage_type_val file_identifier_val
                             ''Invalid time_to_print_ts. Must be a valid Unix timestamp.'' w2 of
                        (f, w3) \<Rightarrow> (Inl f, w3))
                 | Inl ex \<Rightarrow> (Inl (Uncaught ex), w2)
                 | Inr print_datetime \<Rightarrow>
                     if print_datetime \<le> now_128 clk + minutes 1
                     then (case reject_time storage_type_val file_identifier_val
                                  ''time_to_print must be in the future (at least 1 minute ahead).'' w2 of
                             (f, w3) \<Rightarrow> (Inl f, w3))
                     else (case create_and_schedule e clk file color_mode_val page_size_val
                                  uploader_email_val storage_type_val file_identifier_val
                                  print_datetime w2 of
                             (new_task, w3) \<Rightarrow> (Inr new_task, w3)))))"

text \<open>The value of \<open>temp_file_path\<close> (lines 84 and 85) with the join carried out.\<close>

definition temp_path :: "env \<Rightarrow> clock \<Rightarrow> UploadFile \<Rightarrow> string" where
  "temp_path e clk file = ''uploads/temp_'' @ timestamp_str e (now_84 clk) @ ''_'' @ filename file"

text \<open>
  \<open>list_tasks\<close>: \<open>ORDER BY created_at DESC OFFSET skip LIMIT limit\<close>. SQL leaves the
  order among rows of equal \<open>created_at\<close> open; here they keep the table's order. A
  negative offset counts as zero and a negative limit as no limit (SQLite).
\<close>

definition list_tasks :: "int \<Rightarrow> int \<Rightarrow> world \<Rightarrow> Task list" where
  "list_tasks skip limit w =
     (let ordered = sort_key (\<lambda>t. - created_at t) (db_tasks w);
          rest = drop (nat skip) ordered
      in if limit < 0 then rest else take (nat limit) rest)"

section \<open>Handler firings\<close>

text \<open>
  The scheduler calls a handler with the arguments stored in the job. A firing is one
  such call, under the behaviour the collaborators show during it.
\<close>

datatype firing = FireDownload env int string | FirePrint env int "string option"

fun fire :: "firing \<Rightarrow> world \<Rightarrow> world" where
  "fire (FireDownload e tid dir) w = prepare_gdrive_download_task e tid dir w"
| "fire (FirePrint e tid printer_name_val) w = print_file_task e tid printer_name_val w"

section \<open>Example states\<close>

text \<open>
  The configuration of the test suite: every collaborator works and the print command
  succeeds.
\<close>

definition env_example :: env where
  "env_example =
     \<lparr>created_at_default = seconds 1000,
      PRINTER_NAME = Some ''TestPrinter'',
      GDRIVE_FOLDER_ID = Some ''TestDriveFolderId'',
      gdrive_service = True,
      files_create = Inr ''mock_gdrive_file_id_123'',
      files_get_media = Downloaded,
      smtp_settings = True,
      smtp_delivers = True,
      subprocess_run = (\<lambda>cmd. Inr \<lparr>returncode = 0, stdout = ''Successfully printed.'', stderr = []\<rparr>),
      timestamp_str = str_int\<rparr>"

definition task_example :: "StorageType \<Rightarrow> TaskStatus \<Rightarrow> string option \<Rightarrow> Task" where
  "task_example st s staged =
     \<lparr>task_id = 7,
      original_filename = ''doc.pdf'',
      uploader_email = ''printer@test.com'',
      storage_type = Some st,
      file_identifier = (if st = LOCAL then ''uploads/local_1_doc.pdf'' else ''gdrive_id_7''),
      gdrive_download_path = staged,
      time_to_print = seconds 9000,
      color_mode = ''bw'',
      page_size = ''A4'',
      status = s,
      created_at = seconds 1000,
      error_message = None\<rparr>"

definition staged_example :: string where
  "staged_example = ''uploads/gdrive_downloads/task_7_doc.pdf''"

definition world_example :: "Task \<Rightarrow> world" where
  "world_example t =
     \<lparr>db_tasks = [t],
      files = {''uploads/local_1_doc.pdf'', staged_example},
      undeletable = {},
      gdrive_files = {''gdrive_id_7''},
      jobs = [\<lparr>job_id = ''print_task_7'', run_date = seconds 9000,
               func = PrintFile 7 (Some ''TestPrinter'')\<rparr>],
      send_email_calls = [],
      smtp_sent = [],
      subprocess_calls = []\<rparr>"

text \<open>
  Submissions: a clock that does not advance during the request, an empty system, the
  two files of the API tests and the records their submission at second 2000 creates for
  a print time at second 9000.
\<close>

definition clock_example :: "datetime \<Rightarrow> clock" where
  "clock_example t = \<lparr>now_84 = t, now_115 = t, now_128 = t, now_151 = t, now_153 = t\<rparr>"

definition world_empty :: world where
  "world_empty =
     \<lparr>db_tasks = [], files = {}, undeletable = {}, gdrive_files = {}, jobs = [],
      send_email_calls = [], smtp_sent = [], subprocess_calls = []\<rparr>"

definition small_file_example :: UploadFile where
  "small_file_example = \<lparr>filename = ''small_test.txt'', content_length = 26\<rparr>"

definition large_file_example :: UploadFile where
  "large_file_example =
     \<lparr>filename = ''large_test.txt'', content_length = MAX_FILE_SIZE_BYTES + 100\<rparr>"

definition small_task_example :: Task where
  "small_task_example =
     \<lparr>task_id = 1, original_filename = ''small_test.txt'', uploader_email = ''test@example.com'',
      storage_type = Some LOCAL, file_identifier = ''uploads/local_2000000000_small_test.txt'',
      gdrive_download_path = None, time_to_print = seconds 9000, color_mode = ''bw'',
      page_size = ''A4'', status = SCHEDULED, created_at = seconds 1000, error_message = None\<rparr>"

definition large_task_example :: Task where
  "large_task_example =
     \<lparr>task_id = 1, original_filename = ''large_test.txt'',
      uploader_email = ''largeuploader@example.com'',
      storage_type = Some GDRIVE, file_identifier = ''mock_gdrive_file_id_123'',
      gdrive_download_path = None, time_to_print = seconds 9000, color_mode = ''color'',
      page_size = ''Letter'', status = SCHEDULED, created_at = seconds 1000, error_message = None\<rparr>"

section \<open>Basic facts about the store and the disk\<close>

lemma get_task_id: "get_task i w = Some t \<Longrightarrow> task_id t = i"
  by (auto simp: get_task_def find_Some_iff)

lemma find_replace_other:
  "task_id t \<noteq> i \<Longrightarrow>
   find (\<lambda>r. task_id r = i) (map (\<lambda>r. if task_id r = task_id t then t else r) ts)
     = find (\<lambda>r. task_id r = i) ts"
  by (induction ts) auto

lemma find_replace_same:
  "find (\<lambda>r. task_id r = task_id t) ts = Some t0 \<Longrightarrow>
   find (\<lambda>r. task_id r = task_id t) (map (\<lambda>r. if task_id r = task_id t then t else r) ts) = Some t"
  by (induction ts) (auto split: if_splits)

lemma get_task_commit_other: "task_id t \<noteq> i \<Longrightarrow> get_task i (commit t w) = get_task i w"
  by (simp add: get_task_def commit_def find_replace_other)

lemma get_task_commit_same:
  "get_task i w = Some t0 \<Longrightarrow> task_id t = i \<Longrightarrow> get_task i (commit t w) = Some t"
  using find_replace_same[of t "db_tasks w" t0] by (simp add: get_task_def commit_def)

lemma get_task_update:
  "get_task i (w\<lparr>files := a\<rparr>) = get_task i w"
  "get_task i (w\<lparr>jobs := b\<rparr>) = get_task i w"
  "get_task i (w\<lparr>send_email_calls := c\<rparr>) = get_task i w"
  "get_task i (w\<lparr>smtp_sent := c\<rparr>) = get_task i w"
  "get_task i (w\<lparr>subprocess_calls := d\<rparr>) = get_task i w"
  "get_task i (w\<lparr>gdrive_files := g\<rparr>) = get_task i w"
  by (simp_all add: get_task_def)

lemma commit_frame:
  "files (commit t w) = files w"
  "undeletable (commit t w) = undeletable w"
  "gdrive_files (commit t w) = gdrive_files w"
  "jobs (commit t w) = jobs w"
  "send_email_calls (commit t w) = send_email_calls w"
  "smtp_sent (commit t w) = smtp_sent w"
  "subprocess_calls (commit t w) = subprocess_calls w"
  by (simp_all add: commit_def)

lemma os_remove_Inr:
  "os_remove p w = Inr w' \<Longrightarrow>
   w' = w\<lparr>files := files w - {p}\<rparr> \<and> p \<in> files w \<and> p \<notin> undeletable w"
  by (auto simp: os_remove_def split: if_splits)

lemma get_task_send_email: "get_task i (snd (send_email e a b c w)) = get_task i w"
  by (simp add: send_email_def Let_def get_task_update)

lemma get_task_download:
  "download_from_gdrive e f d w = (r, w') \<Longrightarrow> get_task i w' = get_task i w"
  by (auto simp: download_from_gdrive_def Let_def get_task_update
      split: if_splits download_outcome.splits sum.splits dest!: os_remove_Inr)

lemma get_task_cancel_print_job: "get_task i (cancel_print_job k w) = get_task i w"
  by (simp add: cancel_print_job_def get_task_update split: sum.splits)

section \<open>Handlers leave other tasks alone\<close>

lemma submit_and_cleanup_other:
  "task_id task \<noteq> i \<Longrightarrow>
   get_task i (submit_and_cleanup e task pn path flag w) = get_task i w"
  by (auto simp: submit_and_cleanup_def Let_def get_task_commit_other get_task_update
      split: sum.splits dest!: os_remove_Inr)

lemma print_file_task_other:
  "i \<noteq> tid \<Longrightarrow> get_task i (print_file_task e tid p w) = get_task i w"
  by (auto simp: print_file_task_def fail_task_def get_task_commit_other submit_and_cleanup_other
      dest!: get_task_id split: option.splits sum.splits)

lemma prepare_gdrive_download_task_other:
  "i \<noteq> tid \<Longrightarrow> get_task i (prepare_gdrive_download_task e tid d w) = get_task i w"
  by (auto simp: prepare_gdrive_download_task_def Let_def get_task_commit_other
        get_task_cancel_print_job get_task_send_email
      dest!: get_task_id get_task_download[where i=i] split: option.splits sum.splits prod.splits)

lemma print_file_task_failed:
  "get_task tid w = Some task \<Longrightarrow> status task = FAILED \<Longrightarrow> print_file_task e tid p w = w"
  by (simp add: print_file_task_def)

lemma prepare_gdrive_download_task_failed:
  "get_task tid w = Some task \<Longrightarrow> status task = FAILED \<Longrightarrow>
   prepare_gdrive_download_task e tid d w = w"
  by (simp add: prepare_gdrive_download_task_def)

lemma fire_keeps_failed:
  assumes "get_task tid w = Some task" and "status task = FAILED"
  shows "get_task tid (fire c w) = Some task"
proof (cases c)
  case (FireDownload e i d)
  show ?thesis
  proof (cases "i = tid")
    case True
    with assms FireDownload show ?thesis
      by (simp add: prepare_gdrive_download_task_failed)
  next
    case False
    with assms FireDownload show ?thesis
      by (simp add: prepare_gdrive_download_task_other)
  qed
next
  case (FirePrint e i p)
  show ?thesis
  proof (cases "i = tid")
    case True
    with assms FirePrint show ?thesis
      by (simp add: print_file_task_failed)
  next
    case False
    with assms FirePrint show ?thesis
      by (simp add: print_file_task_other)
  qed
qed

lemma example_get_task: "get_task 7 (world_example (task_example st s g)) = Some (task_example st s g)"
  by (simp add: get_task_def world_example_def task_example_def)

section \<open>The print handler on a finished task\<close>

text \<open>
  C1, as amended. The only terminal status the print handler guards is FAILED: on a task
  whose status is FAILED it returns before any effect, so the state after the call is the
  state before it. In particular the print command is not run and no field of any task
  record changes.
\<close>

theorem print_file_task_failed_noop:
  assumes "get_task tid w = Some task" and "status task = FAILED"
  shows "print_file_task e tid printer_name_val w = w
         \<and> subprocess_calls (print_file_task e tid printer_name_val w) = subprocess_calls w
         \<and> db_tasks (print_file_task e tid printer_name_val w) = db_tasks w"
  using assms by (simp add: print_file_task_def)

theorem print_file_task_failed_noop_witness:
  "get_task 7 (world_example (task_example LOCAL FAILED None)) = Some (task_example LOCAL FAILED None)
   \<and> status (task_example LOCAL FAILED None) = FAILED
   \<and> print_file_task env_example 7 (Some ''TestPrinter'') (world_example (task_example LOCAL FAILED None))
       = world_example (task_example LOCAL FAILED None)"
proof -
  have g: "get_task 7 (world_example (task_example LOCAL FAILED None)) = Some (task_example LOCAL FAILED None)"
    by (rule example_get_task)
  have s: "status (task_example LOCAL FAILED None) = FAILED"
    by (simp add: task_example_def)
  from print_file_task_failed_noop [OF g s, of env_example "Some ''TestPrinter''"] g s
  show ?thesis by simp
qed

text \<open>
  C1 as stated fails for COMPLETED. There is no guard for that status: a LOCAL task that
  is already COMPLETED, with its file on disk and a printer configured, is printed again
  and its record passes through PRINTING.
\<close>

theorem print_file_task_completed_counterexample:
  "get_task 7 (world_example (task_example LOCAL COMPLETED None))
     = Some (task_example LOCAL COMPLETED None)
   \<and> status (task_example LOCAL COMPLETED None) = COMPLETED
   \<and> subprocess_calls (world_example (task_example LOCAL COMPLETED None)) = []
   \<and> subprocess_calls
       (print_file_task env_example 7 (Some ''TestPrinter'')
          (world_example (task_example LOCAL COMPLETED None)))
     = [''lp'', ''-d'', ''TestPrinter'', ''-o'', ''media=A4'', ''-o'', ''ColorModel=Gray'',
        ''uploads/local_1_doc.pdf''] # []"
  by (simp add: print_file_task_def get_task_def world_example_def task_example_def
      resolve_file_def os_path_exists_def submit_and_cleanup_def Let_def commit_def
      print_command_of_def env_example_def)

section \<open>A failed task stays as it is\<close>

text \<open>
  C2. When a task's status is FAILED, the download handler and the print handler called
  for it change nothing at all, and after any sequence of handler firings (download or
  print, for this task or for others, whatever the collaborators do) the task's record is
  the same record, field for field.
\<close>

theorem failed_task_never_changes:
  assumes "get_task tid w = Some task" and "status task = FAILED"
  shows "prepare_gdrive_download_task e tid dir w = w
         \<and> print_file_task e tid printer_name_val w = w
         \<and> get_task tid (fold fire firings w) = Some task"
proof (intro conjI)
  show "prepare_gdrive_download_task e tid dir w = w"
    using assms by (rule prepare_gdrive_download_task_failed)
next
  show "print_file_task e tid printer_name_val w = w"
    using assms by (rule print_file_task_failed)
next
  from assms(1) show "get_task tid (fold fire firings w) = Some task"
  proof (induction firings arbitrary: w)
    case Nil
    then show ?case by simp
  next
    case (Cons c cs)
    from Cons.prems assms(2) have "get_task tid (fire c w) = Some task"
      by (rule fire_keeps_failed)
    then have "get_task tid (fold fire cs (fire c w)) = Some task"
      by (rule Cons.IH)
    then show ?case by simp
  qed
qed

theorem failed_task_never_changes_witness:
  "get_task 7 (world_example (task_example GDRIVE FAILED None)) = Some (task_example GDRIVE FAILED None)
   \<and> status (task_example GDRIVE FAILED None) = FAILED
   \<and> prepare_gdrive_download_task env_example 7 GDRIVE_DOWNLOAD_FULL_PATH
        (world_example (task_example GDRIVE FAILED None))
       = world_example (task_example GDRIVE FAILED None)
   \<and> print_file_task env_example 7 (Some ''TestPrinter'')
        (world_example (task_example GDRIVE FAILED None))
       = world_example (task_example GDRIVE FAILED None)
   \<and> get_task 7
        (fold fire
           [FireDownload env_example 7 GDRIVE_DOWNLOAD_FULL_PATH,
            FirePrint env_example 7 (Some ''TestPrinter'')]
           (world_example (task_example GDRIVE FAILED None)))
       = Some (task_example GDRIVE FAILED None)"
proof -
  have g: "get_task 7 (world_example (task_example GDRIVE FAILED None)) = Some (task_example GDRIVE FAILED None)"
    by (rule example_get_task)
  have s: "status (task_example GDRIVE FAILED None) = FAILED"
    by (simp add: task_example_def)
  from failed_task_never_changes [OF g s] g s
  show ?thesis by blast
qed

section \<open>Print time reached during the download\<close>

text \<open>
  C3. When the print handler runs on a task whose status is DOWNLOADING, the stored record
  afterwards is the old one with status FAILED and an error message saying that the print
  ran while the file was still downloading; the print command is not run, and disk and
  scheduler are untouched.
\<close>

theorem print_file_task_downloading:
  assumes "get_task tid w = Some task" and "status task = DOWNLOADING"
  shows "get_task tid (print_file_task e tid printer_name_val w)
           = Some (task\<lparr>status := FAILED,
                        error_message := Some
                          ''Print task ran while file was still in downloading state or download failed to update status.''\<rparr>)
         \<and> subprocess_calls (print_file_task e tid printer_name_val w) = subprocess_calls w
         \<and> files (print_file_task e tid printer_name_val w) = files w
         \<and> jobs (print_file_task e tid printer_name_val w) = jobs w"
proof -
  from assms(1) have "task_id task = tid" by (rule get_task_id)
  with assms show ?thesis
    by (simp add: print_file_task_def fail_task_def commit_frame get_task_commit_same)
qed

theorem print_file_task_downloading_witness:
  "get_task 7 (world_example (task_example GDRIVE DOWNLOADING None))
     = Some (task_example GDRIVE DOWNLOADING None)
   \<and> status (task_example GDRIVE DOWNLOADING None) = DOWNLOADING
   \<and> get_task 7 (print_file_task env_example 7 (Some ''TestPrinter'')
        (world_example (task_example GDRIVE DOWNLOADING None)))
       = Some ((task_example GDRIVE DOWNLOADING None)\<lparr>status := FAILED,
                 error_message := Some
                   ''Print task ran while file was still in downloading state or download failed to update status.''\<rparr>)
   \<and> subprocess_calls (print_file_task env_example 7 (Some ''TestPrinter'')
        (world_example (task_example GDRIVE DOWNLOADING None))) = []"
proof -
  have g: "get_task 7 (world_example (task_example GDRIVE DOWNLOADING None))
             = Some (task_example GDRIVE DOWNLOADING None)"
    by (rule example_get_task)
  have s: "status (task_example GDRIVE DOWNLOADING None) = DOWNLOADING"
    by (simp add: task_example_def)
  have c: "subprocess_calls (world_example (task_example GDRIVE DOWNLOADING None)) = []"
    by (simp add: world_example_def)
  from print_file_task_downloading [OF g s, of env_example "Some ''TestPrinter''"] g s c
  show ?thesis by simp
qed

section \<open>A failed download\<close>

lemma send_email_frame:
  "send_email_calls (snd (send_email e a b c w)) = send_email_calls w @ [(a, b, c)]"
  "jobs (snd (send_email e a b c w)) = jobs w"
  "files (snd (send_email e a b c w)) = files w"
  by (simp_all add: send_email_def Let_def)

lemma download_frame:
  assumes "download_from_gdrive e f d w = (r, w')"
  shows "jobs w' = jobs w" "send_email_calls w' = send_email_calls w" "subprocess_calls w' = subprocess_calls w"
  using assms
  by (auto simp: download_from_gdrive_def Let_def split: if_splits download_outcome.splits sum.splits dest!: os_remove_Inr)

lemma cancel_print_job_jobs:
  "jobs (cancel_print_job i w) = filter (\<lambda>j. job_id j \<noteq> print_job_key i) (jobs w)"
proof (cases "print_job_key i \<in> set (map job_id (jobs w))")
  case True
  then show ?thesis by (simp add: cancel_print_job_def remove_job_def)
next
  case False
  then have "filter (\<lambda>j. job_id j \<noteq> print_job_key i) (jobs w) = jobs w"
    by (intro filter_True) force
  with False show ?thesis by (simp add: cancel_print_job_def remove_job_def)
qed

lemma cancel_print_job_frame:
  "send_email_calls (cancel_print_job i w) = send_email_calls w"
  "files (cancel_print_job i w) = files w"
  by (simp_all add: cancel_print_job_def split: sum.splits)

text \<open>
  C4. Take a GDRIVE task that is not FAILED and let the remote fetch of the download
  handler raise \<open>ex\<close>. Afterwards the stored record is the old one with status FAILED and
  \<open>str(ex)\<close> as error message; \<open>send_email\<close> has been called exactly once more, for the
  uploader's address; and no job with the task's print key is pending, whether or not
  one was. Nothing is assumed about the SMTP settings, the SMTP server or the scheduler's
  jobs: the record is committed also when the mail is not delivered and when the print
  job is not found.
\<close>

theorem download_failure:
  assumes t: "get_task tid w = Some task"
    and nf: "status task \<noteq> FAILED"
    and g: "storage_type task = Some GDRIVE"
    and d: "fst (download_from_gdrive e (file_identifier task)
                  (os_path_join dir (''task_'' @ str_int tid @ ''_'' @ original_filename task))
                  (commit (task\<lparr>status := DOWNLOADING\<rparr>) w)) = Inl ex"
  shows "get_task tid (prepare_gdrive_download_task e tid dir w)
           = Some (task\<lparr>status := FAILED, error_message := Some (str_exn ex)\<rparr>)
         \<and> send_email_calls (prepare_gdrive_download_task e tid dir w)
           = send_email_calls w @
               [(uploader_email task, ''Print Task Failed: '' @ original_filename task,
                 download_failure_body task ex)]
         \<and> jobs (prepare_gdrive_download_task e tid dir w)
           = filter (\<lambda>j. job_id j \<noteq> print_job_key tid) (jobs w)"
proof -
  from t have id: "task_id task = tid" by (rule get_task_id)
  let ?t1 = "task\<lparr>status := DOWNLOADING\<rparr>"
  let ?w1 = "commit ?t1 w"
  let ?dest = "os_path_join dir (''task_'' @ str_int tid @ ''_'' @ original_filename task)"
  obtain w2 where dl: "download_from_gdrive e (file_identifier task) ?dest ?w1 = (Inl ex, w2)"
    using d by (cases "download_from_gdrive e (file_identifier task) ?dest ?w1") simp
  let ?t2 = "task\<lparr>status := FAILED, error_message := Some (str_exn ex)\<rparr>"
  let ?w3 = "snd (send_email e (uploader_email task) (download_failure_subject ?t2) (download_failure_body ?t2 ex) w2)"
  let ?w4 = "cancel_print_job tid ?w3"
  have run: "prepare_gdrive_download_task e tid dir w = commit ?t2 ?w4"
    using t nf g dl id by (simp add: prepare_gdrive_download_task_def Let_def)
  have g1: "get_task tid ?w1 = Some ?t1" using t id by (simp add: get_task_commit_same)
  have g2: "get_task tid w2 = Some ?t1" using get_task_download[OF dl] g1 by simp
  have g4: "get_task tid ?w4 = Some ?t1" using g2 by (simp add: get_task_cancel_print_job get_task_send_email)
  have r1: "get_task tid (commit ?t2 ?w4) = Some ?t2" using g4 id by (simp add: get_task_commit_same)
  have body: "download_failure_body ?t2 ex = download_failure_body task ex"
    by (simp add: download_failure_body_def)
  have r2: "send_email_calls (commit ?t2 ?w4) = send_email_calls w @ [(uploader_email task, ''Print Task Failed: '' @ original_filename task, download_failure_body task ex)]"
    using download_frame(2)[OF dl]
    by (simp add: commit_frame cancel_print_job_frame send_email_frame download_failure_subject_def body)
  have r3: "jobs (commit ?t2 ?w4) = filter (\<lambda>j. job_id j \<noteq> print_job_key tid) (jobs w)"
    using download_frame(1)[OF dl]
    by (simp add: commit_frame cancel_print_job_jobs send_email_frame)
  from run r1 r2 r3 show ?thesis by simp
qed

theorem download_failure_witness:
  "get_task 7 (world_example (task_example GDRIVE SCHEDULED None)) = Some (task_example GDRIVE SCHEDULED None)
   \<and> get_task 7
        (prepare_gdrive_download_task
           (env_example\<lparr>files_get_media := DownloadFailed True (Exception ''Simulated GDrive API Error''),
                        smtp_delivers := False\<rparr>)
           7 GDRIVE_DOWNLOAD_FULL_PATH (world_example (task_example GDRIVE SCHEDULED None)))
       = Some ((task_example GDRIVE SCHEDULED None)
                 \<lparr>status := FAILED, error_message := Some ''Simulated GDrive API Error''\<rparr>)
   \<and> jobs (prepare_gdrive_download_task
           (env_example\<lparr>files_get_media := DownloadFailed True (Exception ''Simulated GDrive API Error''),
                        smtp_delivers := False\<rparr>)
           7 GDRIVE_DOWNLOAD_FULL_PATH (world_example (task_example GDRIVE SCHEDULED None))) = []"
proof -
  let ?e = "env_example\<lparr>files_get_media := DownloadFailed True (Exception ''Simulated GDrive API Error''),
                        smtp_delivers := False\<rparr>"
  let ?t = "task_example GDRIVE SCHEDULED None"
  have g: "get_task 7 (world_example ?t) = Some ?t"
    by (rule example_get_task)
  have nf: "status ?t \<noteq> FAILED" by (simp add: task_example_def)
  have st: "storage_type ?t = Some GDRIVE" by (simp add: task_example_def)
  have d: "fst (download_from_gdrive ?e (file_identifier ?t)
                  (os_path_join GDRIVE_DOWNLOAD_FULL_PATH (''task_'' @ str_int 7 @ ''_'' @ original_filename ?t))
                  (commit (?t\<lparr>status := DOWNLOADING\<rparr>) (world_example ?t)))
           = Inl (Exception ''Simulated GDrive API Error'')"
    by (simp add: download_from_gdrive_def env_example_def Let_def os_path_exists_def os_remove_def
        commit_frame world_example_def)
  have j: "filter (\<lambda>j. job_id j \<noteq> print_job_key 7) (jobs (world_example ?t)) = []"
    by (simp add: world_example_def print_job_key_def str_int_def str_nat.simps)
  from download_failure [OF g nf st d] g j show ?thesis by simp
qed

section \<open>Cleanup after printing\<close>

lemma submit_and_cleanup_files_local:
  "files (submit_and_cleanup e task pn path False w) = files w"
  by (simp add: submit_and_cleanup_def Let_def commit_frame)

lemma submit_and_cleanup_calls:
  "subprocess_calls (submit_and_cleanup e task pn path flag w)
     = subprocess_calls w @ [print_command_of (task\<lparr>status := PRINTING\<rparr>) pn path]"
  by (auto simp: submit_and_cleanup_def Let_def commit_frame split: sum.splits dest!: os_remove_Inr)

lemma submit_and_cleanup_staged_removed:
  assumes "get_task tid w = Some task" "path \<in> files w" "path \<notin> undeletable w"
  shows "files (submit_and_cleanup e task pn path True w) = files w - {path}
    \<and> (\<exists>t'. get_task tid (submit_and_cleanup e task pn path True w) = Some t'
           \<and> gdrive_download_path t' = None \<and> (status t' = COMPLETED \<or> status t' = FAILED))"
proof -
  from assms(1) have id: "task_id task = tid" by (rule get_task_id)
  let ?t1 = "task\<lparr>status := PRINTING\<rparr>"
  let ?w1 = "commit ?t1 w"
  let ?cmd = "print_command_of ?t1 pn path"
  let ?w2 = "?w1\<lparr>subprocess_calls := subprocess_calls ?w1 @ [?cmd]\<rparr>"
  define t2 where "t2 = (case subprocess_run e ?cmd of
               Inr process \<Rightarrow>
                 if returncode process = 0 then ?t1\<lparr>status := COMPLETED\<rparr>
                 else ?t1\<lparr>status := FAILED,
                            error_message := Some
                              (if stderr process \<noteq> [] then stderr process
                               else if stdout process \<noteq> [] then stdout process
                               else ''Unknown printing error'')\<rparr>
             | Inl ex \<Rightarrow> ?t1\<lparr>status := FAILED, error_message := Some (str_exn ex)\<rparr>)"
  have t2id: "task_id t2 = tid" and t2st: "status t2 = COMPLETED \<or> status t2 = FAILED"
    using id by (auto simp: t2_def split: sum.splits)
  let ?w3 = "commit t2 ?w2"
  have f3: "files ?w3 = files w" "undeletable ?w3 = undeletable w" by (simp_all add: commit_frame)
  have rm: "os_remove path ?w3 = Inr (?w3\<lparr>files := files w - {path}\<rparr>)"
    using assms(2,3) f3 by (simp add: os_remove_def)
  have run: "submit_and_cleanup e task pn path True w
      = commit (t2\<lparr>gdrive_download_path := None\<rparr>) (?w3\<lparr>files := files w - {path}\<rparr>)"
    using assms(2) f3 rm
    by (simp add: submit_and_cleanup_def Let_def t2_def[symmetric] os_path_exists_def)
  have g1: "get_task tid ?w1 = Some ?t1" using assms(1) id by (simp add: get_task_commit_same)
  have g3: "get_task tid ?w3 = Some t2" using g1 t2id by (simp add: get_task_commit_same get_task_update)
  have g4: "get_task tid (commit (t2\<lparr>gdrive_download_path := None\<rparr>) (?w3\<lparr>files := files w - {path}\<rparr>))
       = Some (t2\<lparr>gdrive_download_path := None\<rparr>)"
    using g3 t2id by (simp add: get_task_commit_same get_task_update)
  show ?thesis using run g4 t2st by (simp add: commit_frame)
qed

lemma submit_and_cleanup_staged_kept:
  assumes "get_task tid w = Some task" "path \<in> undeletable w"
  shows "files (submit_and_cleanup e task pn path True w) = files w
    \<and> (\<exists>t'. get_task tid (submit_and_cleanup e task pn path True w) = Some t'
           \<and> gdrive_download_path t' = gdrive_download_path task)"
proof -
  from assms(1) have id: "task_id task = tid" by (rule get_task_id)
  let ?t1 = "task\<lparr>status := PRINTING\<rparr>"
  let ?w1 = "commit ?t1 w"
  let ?cmd = "print_command_of ?t1 pn path"
  let ?w2 = "?w1\<lparr>subprocess_calls := subprocess_calls ?w1 @ [?cmd]\<rparr>"
  define t2 where "t2 = (case subprocess_run e ?cmd of
               Inr process \<Rightarrow>
                 if returncode process = 0 then ?t1\<lparr>status := COMPLETED\<rparr>
                 else ?t1\<lparr>status := FAILED,
                            error_message := Some
                              (if stderr process \<noteq> [] then stderr process
                               else if stdout process \<noteq> [] then stdout process
                               else ''Unknown printing error'')\<rparr>
             | Inl ex \<Rightarrow> ?t1\<lparr>status := FAILED, error_message := Some (str_exn ex)\<rparr>)"
  have t2id: "task_id t2 = tid" and t2p: "gdrive_download_path t2 = gdrive_download_path task"
    using id by (auto simp: t2_def split: sum.splits)
  let ?w3 = "commit t2 ?w2"
  have f3: "files ?w3 = files w" "undeletable ?w3 = undeletable w" by (simp_all add: commit_frame)
  have rm: "\<exists>ex. os_remove path ?w3 = Inl ex"
    using assms(2) f3 by (simp add: os_remove_def)
  have run: "submit_and_cleanup e task pn path True w = ?w3"
    using rm by (auto simp add: submit_and_cleanup_def Let_def t2_def[symmetric])
  have g1: "get_task tid ?w1 = Some ?t1" using assms(1) id by (simp add: get_task_commit_same)
  have g3: "get_task tid ?w3 = Some t2" using g1 t2id by (simp add: get_task_commit_same get_task_update)
  show ?thesis using run g3 t2p f3 by simp
qed

lemma fail_task_files: "files (fail_task t m w) = files w"
  by (simp add: fail_task_def commit_frame)

lemma print_file_task_local_files:
  assumes "get_task tid w = Some task" and "storage_type task = Some LOCAL"
  shows "files (print_file_task e tid pv w) = files w"
  using assms
  by (simp add: print_file_task_def resolve_file_def fail_task_files submit_and_cleanup_files_local
      split: option.splits)

lemma print_file_task_staged:
  assumes "get_task tid w = Some task" and "storage_type task = Some GDRIVE"
    and "status task \<noteq> FAILED" and "status task \<noteq> DOWNLOADING" and "pn \<noteq> []"
    and "gdrive_download_path task = Some p" and "p \<noteq> []" and "p \<in> files w"
  shows "print_file_task e tid (Some pn) w = submit_and_cleanup e task pn p True w"
  using assms by (simp add: print_file_task_def resolve_file_def os_path_exists_def)

text \<open>
  C8, as amended. When the print handler reaches submission with the staged copy \<open>p\<close> of
  a GDRIVE task, it runs the print command on \<open>p\<close> and then, whatever the command
  returned or raised: if \<open>p\<close> can be removed, \<open>p\<close> is deleted from disk and the stored
  record has \<open>gdrive_download_path\<close> cleared and status COMPLETED or FAILED; if removing
  \<open>p\<close> raises, the exception is caught, the file stays and \<open>gdrive_download_path\<close>
  stays set. On a LOCAL task the handler deletes no file.
\<close>

theorem print_file_task_cleanup:
  assumes "get_task tid w = Some task"
  shows "(storage_type task = Some GDRIVE \<and> status task \<noteq> FAILED \<and> status task \<noteq> DOWNLOADING
            \<and> pv = Some pn \<and> pn \<noteq> [] \<and> gdrive_download_path task = Some p \<and> p \<noteq> [] \<and> p \<in> files w
          \<longrightarrow> subprocess_calls (print_file_task e tid pv w)
                = subprocess_calls w @ [print_command_of (task\<lparr>status := PRINTING\<rparr>) pn p]
              \<and> (p \<notin> undeletable w
                 \<longrightarrow> files (print_file_task e tid pv w) = files w - {p}
                     \<and> (\<exists>t'. get_task tid (print_file_task e tid pv w) = Some t'
                             \<and> gdrive_download_path t' = None
                             \<and> (status t' = COMPLETED \<or> status t' = FAILED)))
              \<and> (p \<in> undeletable w
                 \<longrightarrow> files (print_file_task e tid pv w) = files w
                     \<and> (\<exists>t'. get_task tid (print_file_task e tid pv w) = Some t'
                             \<and> gdrive_download_path t' = Some p)))
         \<and> (storage_type task = Some LOCAL \<longrightarrow> files (print_file_task e tid pv w) = files w)"
proof (intro conjI impI)
  assume "storage_type task = Some LOCAL"
  with assms show "files (print_file_task e tid pv w) = files w"
    by (rule print_file_task_local_files)
next
  assume h: "storage_type task = Some GDRIVE \<and> status task \<noteq> FAILED \<and> status task \<noteq> DOWNLOADING
            \<and> pv = Some pn \<and> pn \<noteq> [] \<and> gdrive_download_path task = Some p \<and> p \<noteq> [] \<and> p \<in> files w"
  with assms have run: "print_file_task e tid pv w = submit_and_cleanup e task pn p True w"
    by (simp add: print_file_task_staged)
  show "subprocess_calls (print_file_task e tid pv w)
                = subprocess_calls w @ [print_command_of (task\<lparr>status := PRINTING\<rparr>) pn p]"
    by (simp add: run submit_and_cleanup_calls)
  {
    assume "p \<notin> undeletable w"
    with assms h have r: "files (submit_and_cleanup e task pn p True w) = files w - {p}
    \<and> (\<exists>t'. get_task tid (submit_and_cleanup e task pn p True w) = Some t'
           \<and> gdrive_download_path t' = None \<and> (status t' = COMPLETED \<or> status t' = FAILED))"
      by (intro submit_and_cleanup_staged_removed) simp_all
    from r show "files (print_file_task e tid pv w) = files w - {p}" by (simp add: run)
    from r show "\<exists>t'. get_task tid (print_file_task e tid pv w) = Some t'
                             \<and> gdrive_download_path t' = None
                             \<and> (status t' = COMPLETED \<or> status t' = FAILED)" by (simp add: run)
  }
  {
    assume "p \<in> undeletable w"
    with assms h have r: "files (submit_and_cleanup e task pn p True w) = files w
    \<and> (\<exists>t'. get_task tid (submit_and_cleanup e task pn p True w) = Some t'
           \<and> gdrive_download_path t' = gdrive_download_path task)"
      by (intro submit_and_cleanup_staged_kept) simp_all
    from r show "files (print_file_task e tid pv w) = files w" by (simp add: run)
    from h have gp: "gdrive_download_path task = Some p" by simp
    from r gp show "\<exists>t'. get_task tid (print_file_task e tid pv w) = Some t'
                             \<and> gdrive_download_path t' = Some p" by (simp add: run)
  }
qed

theorem print_file_task_cleanup_witness:
  "(let t = task_example GDRIVE SCHEDULED (Some staged_example); w = world_example t;
        w' = print_file_task env_example 7 (Some ''TestPrinter'') w
    in get_task 7 w = Some t \<and> storage_type t = Some GDRIVE \<and> staged_example \<in> files w
       \<and> staged_example \<notin> undeletable w
       \<and> files w' = {''uploads/local_1_doc.pdf''}
       \<and> (\<exists>t'. get_task 7 w' = Some t' \<and> gdrive_download_path t' = None))
   \<and> (let t = task_example LOCAL SCHEDULED None; w = world_example t;
        w' = print_file_task env_example 7 (Some ''TestPrinter'') w
    in get_task 7 w = Some t \<and> storage_type t = Some LOCAL \<and> files w' = files w)
   \<and> (let t = task_example GDRIVE SCHEDULED (Some staged_example);
        w = (world_example t)\<lparr>undeletable := {staged_example}\<rparr>;
        w' = print_file_task env_example 7 (Some ''TestPrinter'') w
    in get_task 7 w = Some t \<and> staged_example \<in> undeletable w \<and> files w' = files w
       \<and> (\<exists>t'. get_task 7 w' = Some t' \<and> gdrive_download_path t' = Some staged_example))"
proof -
  let ?t = "task_example GDRIVE SCHEDULED (Some staged_example)"
  let ?l = "task_example LOCAL SCHEDULED None"
  have g: "get_task 7 (world_example ?t) = Some ?t" by (rule example_get_task)
  have gl: "get_task 7 (world_example ?l) = Some ?l" by (rule example_get_task)
  have h: "storage_type ?t = Some GDRIVE" "status ?t \<noteq> FAILED" "status ?t \<noteq> DOWNLOADING"
    "gdrive_download_path ?t = Some staged_example" "staged_example \<noteq> []"
    "staged_example \<in> files (world_example ?t)" "staged_example \<notin> undeletable (world_example ?t)"
    "files (world_example ?t) - {staged_example} = {''uploads/local_1_doc.pdf''}"
    by (simp_all add: task_example_def world_example_def staged_example_def insert_Diff_if)
  have hl: "storage_type ?l = Some LOCAL" by (simp add: task_example_def)
  let ?u = "(world_example ?t)\<lparr>undeletable := {staged_example}\<rparr>"
  have gu: "get_task 7 ?u = Some ?t"
    using g by (simp add: get_task_def)
  have hu: "staged_example \<in> files ?u" "staged_example \<in> undeletable ?u"
    by (simp_all add: world_example_def)
  have a: "files (print_file_task env_example 7 (Some ''TestPrinter'') (world_example ?t))
             = {''uploads/local_1_doc.pdf''}
           \<and> (\<exists>t'. get_task 7 (print_file_task env_example 7 (Some ''TestPrinter'') (world_example ?t))
                       = Some t' \<and> gdrive_download_path t' = None)"
    using print_file_task_cleanup [OF g, of "Some ''TestPrinter''" "''TestPrinter''" staged_example env_example] h
    by auto
  have b: "files (print_file_task env_example 7 (Some ''TestPrinter'') (world_example ?l))
             = files (world_example ?l)"
    using print_file_task_cleanup [OF gl, of "Some ''TestPrinter''" "''TestPrinter''" staged_example env_example] hl
    by simp
  have c: "files (print_file_task env_example 7 (Some ''TestPrinter'') ?u) = files ?u
           \<and> (\<exists>t'. get_task 7 (print_file_task env_example 7 (Some ''TestPrinter'') ?u) = Some t'
                   \<and> gdrive_download_path t' = Some staged_example)"
    using print_file_task_cleanup [OF gu, of "Some ''TestPrinter''" "''TestPrinter''" staged_example env_example]
      h(1-5) hu
    by auto
  from a b c g gl gu h hl hu show ?thesis by (simp add: Let_def)
qed

text \<open>
  C8 as stated fails where the removal raises: the staged copy of a GDRIVE task exists
  but cannot be deleted. The print command runs and succeeds, the file is still on disk
  and the stored record still names it.
\<close>

theorem print_file_task_cleanup_counterexample:
  "storage_type (task_example GDRIVE SCHEDULED (Some staged_example)) = Some GDRIVE
   \<and> get_task 7 ((world_example (task_example GDRIVE SCHEDULED (Some staged_example)))
                   \<lparr>undeletable := {staged_example}\<rparr>)
       = Some (task_example GDRIVE SCHEDULED (Some staged_example))
   \<and> subprocess_calls
       (print_file_task env_example 7 (Some ''TestPrinter'')
          ((world_example (task_example GDRIVE SCHEDULED (Some staged_example)))
             \<lparr>undeletable := {staged_example}\<rparr>))
       = [''lp'', ''-d'', ''TestPrinter'', ''-o'', ''media=A4'', ''-o'', ''ColorModel=Gray'',
          staged_example] # []
   \<and> staged_example \<in> files
       (print_file_task env_example 7 (Some ''TestPrinter'')
          ((world_example (task_example GDRIVE SCHEDULED (Some staged_example)))
             \<lparr>undeletable := {staged_example}\<rparr>))
   \<and> get_task 7
       (print_file_task env_example 7 (Some ''TestPrinter'')
          ((world_example (task_example GDRIVE SCHEDULED (Some staged_example)))
             \<lparr>undeletable := {staged_example}\<rparr>))
       = Some ((task_example GDRIVE SCHEDULED (Some staged_example))\<lparr>status := COMPLETED\<rparr>)
   \<and> gdrive_download_path ((task_example GDRIVE SCHEDULED (Some staged_example))\<lparr>status := COMPLETED\<rparr>)
       = Some staged_example"
  by (simp add: print_file_task_def get_task_def world_example_def task_example_def
      resolve_file_def os_path_exists_def submit_and_cleanup_def Let_def commit_def
      print_command_of_def env_example_def os_remove_def staged_example_def)

section \<open>Submission: the steps of \<open>add_task\<close>\<close>

lemma uploads_join:
  "c \<noteq> CHR ''/'' \<Longrightarrow> os_path_join LOCAL_STORAGE_PATH (c # x) = ''uploads/'' @ c # x"
  by (simp add: os_path_join_def LOCAL_STORAGE_PATH_def)

lemma fromtimestamp_Inr: "datetime_fromtimestamp ts = Inr pdt \<Longrightarrow> pdt = seconds ts"
  by (auto simp: datetime_fromtimestamp_def split: if_splits)

lemma upload_failed_frame:
  "upload_failed ex p w = (f, w') \<Longrightarrow> db_tasks w' = db_tasks w \<and> jobs w' = jobs w"
  by (auto simp: upload_failed_def split: sum.splits dest!: os_remove_Inr)

lemma upload_to_gdrive_Inr:
  "upload_to_gdrive e p n w = (Inr gid, w') \<Longrightarrow>
   files_create e = Inr gid \<and> w' = w\<lparr>gdrive_files := insert gid (gdrive_files w)\<rparr>"
  by (auto simp: upload_to_gdrive_def split: if_splits sum.splits)

lemma upload_to_gdrive_frame:
  "upload_to_gdrive e p n w = (r, w') \<Longrightarrow> db_tasks w' = db_tasks w \<and> jobs w' = jobs w \<and> files w' = files w"
  by (auto simp: upload_to_gdrive_def split: if_splits sum.splits)

lemma store_file_frame:
  "store_file e clk file p w = (r, w') \<Longrightarrow> db_tasks w' = db_tasks w \<and> jobs w' = jobs w"
  by (auto simp: store_file_def Let_def shutil_move_def split: if_splits sum.splits prod.splits option.splits
      dest!: os_remove_Inr upload_failed_frame upload_to_gdrive_frame)

lemma store_file_large:
  assumes "store_file e clk file p w = (Inr (st, fid), w')" and "content_length file > MAX_FILE_SIZE_BYTES"
  shows "st = GDRIVE \<and> gdrive_service_available e \<and> files_create e = Inr fid
         \<and> w' = w\<lparr>gdrive_files := insert fid (gdrive_files w), files := files w - {p}\<rparr>"
  using assms
  by (auto simp: store_file_def split: if_splits sum.splits prod.splits
      dest!: os_remove_Inr upload_to_gdrive_Inr)

lemma store_file_small:
  assumes "store_file e clk file p w = (Inr (st, fid), w')" and "\<not> content_length file > MAX_FILE_SIZE_BYTES"
  shows "st = LOCAL \<and> fid = ''uploads/local_'' @ timestamp_str e (now_115 clk) @ ''_'' @ filename file
         \<and> w' = w\<lparr>files := insert fid (files w - {p})\<rparr> \<and> p \<in> files w \<and> p \<notin> undeletable w"
  using assms
  by (auto simp: store_file_def Let_def shutil_move_def uploads_join split: if_splits prod.splits option.splits)

lemma store_file_failure_not_400:
  "store_file e clk file p w = (Inl f, w') \<Longrightarrow> f \<noteq> HTTPException 400 d"
  by (auto simp: store_file_def upload_failed_def Let_def
      split: if_splits sum.splits prod.splits option.splits)

lemma reject_time_frame:
  "reject_time st fid d w = (f, w') \<Longrightarrow> db_tasks w' = db_tasks w \<and> jobs w' = jobs w \<and> gdrive_files w' = gdrive_files w"
  by (auto simp: reject_time_def split: if_splits sum.splits dest!: os_remove_Inr)

lemma reject_time_gdrive: "reject_time GDRIVE fid d w = (HTTPException 400 d, w)"
  by (simp add: reject_time_def)

lemma reject_time_ok:
  "st = GDRIVE \<or> fid \<notin> undeletable w \<Longrightarrow> fst (reject_time st fid d w) = HTTPException 400 d"
  by (auto simp: reject_time_def os_remove_def os_path_exists_def)

lemma add_task_accepted:
  assumes "add_task e clk file ts cm ps em w = (Inr new_task, w')"
  shows "\<exists>st fid w2.
           store_file e clk file (temp_path e clk file) (w\<lparr>files := insert (temp_path e clk file) (files w)\<rparr>)
             = (Inr (st, fid), w2)
           \<and> datetime_fromtimestamp ts = Inr (seconds ts)
           \<and> now_128 clk + minutes 1 < seconds ts
           \<and> create_and_schedule e clk file cm ps em st fid (seconds ts) w2 = (new_task, w')"
  using assms
  by (auto simp: add_task_def Let_def uploads_join temp_path_def
      split: if_splits sum.splits prod.splits exn.splits dest: fromtimestamp_Inr)

lemma add_task_steps:
  assumes "cm = ''color'' \<or> cm = ''bw''" and "em \<noteq> []"
    and "store_file e clk file (temp_path e clk file)
           (w\<lparr>files := insert (temp_path e clk file) (files w)\<rparr>) = (Inr (st, fid), w2)"
    and "datetime_fromtimestamp ts = Inr pdt"
  shows "add_task e clk file ts cm ps em w =
     (if pdt \<le> now_128 clk + minutes 1
      then (case reject_time st fid
                    ''time_to_print must be in the future (at least 1 minute ahead).'' w2 of
              (f, w3) \<Rightarrow> (Inl f, w3))
      else (case create_and_schedule e clk file cm ps em st fid pdt w2 of
              (new_task, w3) \<Rightarrow> (Inr new_task, w3)))"
  using assms by (auto simp: add_task_def Let_def uploads_join temp_path_def)

lemma add_task_invalid_ts:
  assumes "cm = ''color'' \<or> cm = ''bw''" and "em \<noteq> []"
    and "store_file e clk file (temp_path e clk file)
           (w\<lparr>files := insert (temp_path e clk file) (files w)\<rparr>) = (Inr (st, fid), w2)"
    and "datetime_fromtimestamp ts = Inl (ValueError m)"
  shows "add_task e clk file ts cm ps em w =
     (case reject_time st fid ''Invalid time_to_print_ts. Must be a valid Unix timestamp.'' w2 of
        (f, w3) \<Rightarrow> (Inl f, w3))"
  using assms by (auto simp: add_task_def Let_def uploads_join temp_path_def)

lemma add_task_failed_frame:
  assumes "add_task e clk file ts cm ps em w = (Inl f, w')"
  shows "db_tasks w' = db_tasks w \<and> jobs w' = jobs w"
  using assms
  by (auto simp: add_task_def Let_def split: if_splits sum.splits prod.splits exn.splits
      dest!: store_file_frame reject_time_frame)

lemma add_task_invalid_ts_fails:
  assumes "datetime_fromtimestamp ts = Inl (ValueError m)"
  shows "\<exists>f. fst (add_task e clk file ts cm ps em w) = Inl f"
  using assms
  by (auto simp: add_task_def Let_def split: if_splits sum.splits prod.splits exn.splits)

lemma add_task_too_near_fails:
  assumes "datetime_fromtimestamp ts = Inr pdt" and "pdt \<le> now_128 clk + minutes 1"
  shows "\<exists>f. fst (add_task e clk file ts cm ps em w) = Inl f"
  using assms
  by (auto simp: add_task_def Let_def split: if_splits sum.splits prod.splits exn.splits)

lemma add_job_fresh: "job_id j \<notin> set (map job_id js) \<Longrightarrow> add_job j js = js @ [j]"
  by (simp add: add_job_def)

lemma job_keys_differ: "download_job_key i \<noteq> print_job_key k"
  by (simp add: download_job_key_def print_job_key_def)

lemma create_and_schedule_task:
  assumes "create_and_schedule e clk file cm ps em st fid pdt w = (t, w')"
  shows "t = \<lparr>task_id = next_id (db_tasks w), original_filename = filename file,
               uploader_email = em, storage_type = Some st, file_identifier = fid,
               gdrive_download_path = None, time_to_print = pdt, color_mode = cm,
               page_size = ps, status = SCHEDULED, created_at = created_at_default e,
               error_message = None\<rparr>
         \<and> db_tasks w' = db_tasks w @ [t] \<and> files w' = files w \<and> gdrive_files w' = gdrive_files w"
  using assms by (cases st) (auto simp: create_and_schedule_def Let_def)

lemma create_and_schedule_jobs:
  assumes "create_and_schedule e clk file cm ps em st fid pdt w = (t, w')"
  shows "jobs w' =
          (if st = GDRIVE
           then add_job \<lparr>job_id = print_job_key (task_id t), run_date = pdt,
                          func = PrintFile (task_id t) (PRINTER_NAME e)\<rparr>
                  (add_job \<lparr>job_id = download_job_key (task_id t),
                            run_date = (if pdt - minutes 10 \<le> now_151 clk then now_153 clk + seconds 5
                                        else pdt - minutes 10),
                            func = PrepareGdriveDownload (task_id t) GDRIVE_DOWNLOAD_FULL_PATH\<rparr>
                     (jobs w))
           else add_job \<lparr>job_id = print_job_key (task_id t), run_date = pdt,
                          func = PrintFile (task_id t) (PRINTER_NAME e)\<rparr> (jobs w))"
  using assms by (cases st) (auto simp: create_and_schedule_def Let_def)

section \<open>The example submissions\<close>

lemma str_int_examples:
  "str_int 2000000000 = ''2000000000''" "str_int 5000000000 = ''5000000000''" "str_int 1 = ''1''"
  by (simp_all add: str_int_def str_nat.simps)

lemma example_temp:
  "temp_path env_example (clock_example (seconds 2000)) small_file_example
     = ''uploads/temp_2000000000_small_test.txt''"
  "temp_path env_example (clock_example (seconds 2000)) large_file_example
     = ''uploads/temp_2000000000_large_test.txt''"
  by (simp_all add: temp_path_def env_example_def clock_example_def seconds_def str_int_examples
      small_file_example_def large_file_example_def)

lemma example_store_small:
  "fst (store_file env_example (clock_example (seconds 2000)) small_file_example
          (temp_path env_example (clock_example (seconds 2000)) small_file_example)
          (world_empty\<lparr>files := insert (temp_path env_example (clock_example (seconds 2000)) small_file_example)
                                    (files world_empty)\<rparr>))
     = Inr (LOCAL, ''uploads/local_2000000000_small_test.txt'')"
  by (simp add: example_temp store_file_def small_file_example_def MAX_FILE_SIZE_BYTES_def Let_def
      uploads_join env_example_def clock_example_def seconds_def str_int_examples shutil_move_def
      world_empty_def)

lemma example_store_large:
  "fst (store_file env_example (clock_example (seconds 2000)) large_file_example
          (temp_path env_example (clock_example (seconds 2000)) large_file_example)
          (world_empty\<lparr>files := insert (temp_path env_example (clock_example (seconds 2000)) large_file_example)
                                    (files world_empty)\<rparr>))
     = Inr (GDRIVE, ''mock_gdrive_file_id_123'')"
  by (simp add: example_temp store_file_def large_file_example_def Let_def
      gdrive_service_available_def upload_to_gdrive_def os_remove_def
      env_example_def world_empty_def)

lemma example_timestamps:
  "datetime_fromtimestamp 9000 = Inr (seconds 9000)"
  "datetime_fromtimestamp 2030 = Inr (seconds 2030)"
  "datetime_fromtimestamp 2060 = Inr (seconds 2060)"
  "datetime_fromtimestamp 1000000000000 = Inl (ValueError ''year is out of range'')"
  by (simp_all add: datetime_fromtimestamp_def)

lemma small_example_accepted:
  "fst (add_task env_example (clock_example (seconds 2000)) small_file_example 9000 ''bw'' ''A4''
          ''test@example.com'' world_empty) = Inr small_task_example"
proof -
  let ?clk = "clock_example (seconds 2000)"
  let ?temp = "temp_path env_example ?clk small_file_example"
  let ?w1 = "world_empty\<lparr>files := insert ?temp (files world_empty)\<rparr>"
  define w2 where "w2 = snd (store_file env_example ?clk small_file_example ?temp ?w1)"
  have sf: "store_file env_example ?clk small_file_example ?temp ?w1
              = (Inr (LOCAL, ''uploads/local_2000000000_small_test.txt''), w2)"
    unfolding w2_def using example_store_small by (metis prod.collapse)
  from store_file_frame [OF sf] have db: "db_tasks w2 = []" by (simp add: world_empty_def)
  obtain t w3 where cs: "create_and_schedule env_example ?clk small_file_example ''bw'' ''A4''
      ''test@example.com'' LOCAL ''uploads/local_2000000000_small_test.txt'' (seconds 9000) w2 = (t, w3)"
    by (cases "create_and_schedule env_example ?clk small_file_example ''bw'' ''A4''
      ''test@example.com'' LOCAL ''uploads/local_2000000000_small_test.txt'' (seconds 9000) w2")
  have far: "\<not> seconds 9000 \<le> now_128 ?clk + minutes 1"
    by (simp add: clock_example_def seconds_def minutes_def)
  from add_task_steps [OF _ _ sf example_timestamps(1), of "''bw''" "''test@example.com''" "''A4''"] far cs
  have run: "add_task env_example ?clk small_file_example 9000 ''bw'' ''A4'' ''test@example.com'' world_empty
             = (Inr t, w3)" by simp
  from create_and_schedule_task [OF cs] db have "t = small_task_example"
    by (simp add: small_task_example_def next_id_def small_file_example_def env_example_def)
  with run show ?thesis by simp
qed

lemma large_example_accepted:
  "fst (add_task env_example (clock_example (seconds 2000)) large_file_example 9000 ''color'' ''Letter''
          ''largeuploader@example.com'' world_empty) = Inr large_task_example"
proof -
  let ?clk = "clock_example (seconds 2000)"
  let ?temp = "temp_path env_example ?clk large_file_example"
  let ?w1 = "world_empty\<lparr>files := insert ?temp (files world_empty)\<rparr>"
  define w2 where "w2 = snd (store_file env_example ?clk large_file_example ?temp ?w1)"
  have sf: "store_file env_example ?clk large_file_example ?temp ?w1
              = (Inr (GDRIVE, ''mock_gdrive_file_id_123''), w2)"
    unfolding w2_def using example_store_large by (metis prod.collapse)
  from store_file_frame [OF sf] have db: "db_tasks w2 = []" by (simp add: world_empty_def)
  obtain t w3 where cs: "create_and_schedule env_example ?clk large_file_example ''color'' ''Letter''
      ''largeuploader@example.com'' GDRIVE ''mock_gdrive_file_id_123'' (seconds 9000) w2 = (t, w3)"
    by (cases "create_and_schedule env_example ?clk large_file_example ''color'' ''Letter''
      ''largeuploader@example.com'' GDRIVE ''mock_gdrive_file_id_123'' (seconds 9000) w2")
  have far: "\<not> seconds 9000 \<le> now_128 ?clk + minutes 1"
    by (simp add: clock_example_def seconds_def minutes_def)
  from add_task_steps [OF _ _ sf example_timestamps(1), of "''color''" "''largeuploader@example.com''" "''Letter''"] far cs
  have run: "add_task env_example ?clk large_file_example 9000 ''color'' ''Letter''
               ''largeuploader@example.com'' world_empty = (Inr t, w3)" by simp
  from create_and_schedule_task [OF cs] db have "t = large_task_example"
    by (simp add: large_task_example_def next_id_def large_file_example_def env_example_def)
  with run show ?thesis by simp
qed

lemma example_keys: "print_job_key 1 = ''print_task_1''" "download_job_key 1 = ''download_task_1''"
  by (simp_all add: print_job_key_def download_job_key_def str_int_examples)

lemma small_example_store_world:
  assumes "store_file env_example (clock_example (seconds 2000)) small_file_example
          (temp_path env_example (clock_example (seconds 2000)) small_file_example)
          (world_empty\<lparr>files := insert (temp_path env_example (clock_example (seconds 2000)) small_file_example)
                                    (files world_empty)\<rparr>) = (Inr (st, fid), w2)"
  shows "st = LOCAL \<and> fid = ''uploads/local_2000000000_small_test.txt'' \<and> undeletable w2 = {}"
proof -
  have ns: "\<not> content_length small_file_example > MAX_FILE_SIZE_BYTES"
    by (simp add: small_file_example_def MAX_FILE_SIZE_BYTES_def)
  from store_file_small [OF assms ns] show ?thesis
    by (simp add: env_example_def clock_example_def seconds_def str_int_examples
        small_file_example_def world_empty_def)
qed

lemma small_example_rejected:
  assumes ts: "datetime_fromtimestamp ts = Inr pdt" and near: "pdt \<le> seconds 2060"
  shows "fst (add_task env_example (clock_example (seconds 2000)) small_file_example ts ''bw'' ''A4''
          ''test@example.com'' world_empty)
         = Inl (HTTPException 400 ''time_to_print must be in the future (at least 1 minute ahead).'')"
proof -
  let ?clk = "clock_example (seconds 2000)"
  let ?temp = "temp_path env_example ?clk small_file_example"
  let ?w1 = "world_empty\<lparr>files := insert ?temp (files world_empty)\<rparr>"
  obtain st fid w2 where sf: "store_file env_example ?clk small_file_example ?temp ?w1 = (Inr (st, fid), w2)"
    using example_store_small by (metis prod.collapse)
  from small_example_store_world [OF sf] have ok: "st = GDRIVE \<or> fid \<notin> undeletable w2" by simp
  have le: "pdt \<le> now_128 ?clk + minutes 1"
    using near by (simp add: clock_example_def seconds_def minutes_def)
  from add_task_steps [OF _ _ sf ts, of "''bw''" "''test@example.com''" "''A4''"] le
  have "fst (add_task env_example ?clk small_file_example ts ''bw'' ''A4'' ''test@example.com'' world_empty)
        = Inl (fst (reject_time st fid
                 ''time_to_print must be in the future (at least 1 minute ahead).'' w2))"
    by (simp add: split_beta)
  with reject_time_ok [OF ok] show ?thesis by simp
qed

lemma small_example_invalid:
  "fst (add_task env_example (clock_example (seconds 2000)) small_file_example 1000000000000 ''bw'' ''A4''
          ''test@example.com'' world_empty)
         = Inl (HTTPException 400 ''Invalid time_to_print_ts. Must be a valid Unix timestamp.'')"
proof -
  let ?clk = "clock_example (seconds 2000)"
  let ?temp = "temp_path env_example ?clk small_file_example"
  let ?w1 = "world_empty\<lparr>files := insert ?temp (files world_empty)\<rparr>"
  obtain st fid w2 where sf: "store_file env_example ?clk small_file_example ?temp ?w1 = (Inr (st, fid), w2)"
    using example_store_small by (metis prod.collapse)
  from small_example_store_world [OF sf] have ok: "st = GDRIVE \<or> fid \<notin> undeletable w2" by simp
  from add_task_invalid_ts [OF _ _ sf example_timestamps(4), of "''bw''" "''test@example.com''" "''A4''"]
  have "fst (add_task env_example ?clk small_file_example 1000000000000 ''bw'' ''A4'' ''test@example.com'' world_empty)
        = Inl (fst (reject_time st fid
                 ''Invalid time_to_print_ts. Must be a valid Unix timestamp.'' w2))"
    by (simp add: split_beta)
  with reject_time_ok [OF ok] show ?thesis by simp
qed

lemma large_example_rejected:
  "fst (add_task env_example (clock_example (seconds 2000)) large_file_example 2030 ''color'' ''Letter''
          ''largeuploader@example.com'' world_empty)
         = Inl (HTTPException 400 ''time_to_print must be in the future (at least 1 minute ahead).'')"
proof -
  let ?clk = "clock_example (seconds 2000)"
  let ?temp = "temp_path env_example ?clk large_file_example"
  let ?w1 = "world_empty\<lparr>files := insert ?temp (files world_empty)\<rparr>"
  obtain w2 where sf: "store_file env_example ?clk large_file_example ?temp ?w1
       = (Inr (GDRIVE, ''mock_gdrive_file_id_123''), w2)"
    using example_store_large by (metis prod.collapse)
  have le: "seconds 2030 \<le> now_128 ?clk + minutes 1"
    by (simp add: clock_example_def seconds_def minutes_def)
  from add_task_steps [OF _ _ sf example_timestamps(2), of "''color''" "''largeuploader@example.com''" "''Letter''"] le
  show ?thesis by (simp add: reject_time_gdrive)
qed

section \<open>Large files\<close>

text \<open>
  C5. When a submission whose file is larger than the threshold is accepted, remote
  storage was available, the task has storage type GDRIVE and print time \<open>ts\<close>, and
  \<open>add_task\<close> has made exactly two scheduler registrations, first the download job and
  then the print job. The download job runs 10 minutes before the print time, or, when
  that instant is not after the clock, 5 seconds after the clock; the print job runs at
  the print time. Where neither key was pending, the pending jobs are the old ones
  followed by these two.
\<close>

theorem add_task_large_file:
  assumes acc: "add_task e clk file ts cm ps em w = (Inr new_task, w')"
    and big: "content_length file > MAX_FILE_SIZE_BYTES"
  shows "storage_type new_task = Some GDRIVE
         \<and> gdrive_service_available e
         \<and> time_to_print new_task = seconds ts
         \<and> jobs w' =
             add_job \<lparr>job_id = print_job_key (task_id new_task), run_date = seconds ts,
                      func = PrintFile (task_id new_task) (PRINTER_NAME e)\<rparr>
               (add_job \<lparr>job_id = download_job_key (task_id new_task),
                         run_date = (if seconds ts - minutes 10 \<le> now_151 clk
                                     then now_153 clk + seconds 5
                                     else seconds ts - minutes 10),
                         func = PrepareGdriveDownload (task_id new_task) GDRIVE_DOWNLOAD_FULL_PATH\<rparr>
                  (jobs w))
         \<and> (download_job_key (task_id new_task) \<notin> set (map job_id (jobs w))
              \<and> print_job_key (task_id new_task) \<notin> set (map job_id (jobs w))
            \<longrightarrow> jobs w' = jobs w @
                  [\<lparr>job_id = download_job_key (task_id new_task),
                    run_date = (if seconds ts - minutes 10 \<le> now_151 clk
                                then now_153 clk + seconds 5
                                else seconds ts - minutes 10),
                    func = PrepareGdriveDownload (task_id new_task) GDRIVE_DOWNLOAD_FULL_PATH\<rparr>,
                   \<lparr>job_id = print_job_key (task_id new_task), run_date = seconds ts,
                    func = PrintFile (task_id new_task) (PRINTER_NAME e)\<rparr>])"
proof -
  from add_task_accepted [OF acc] obtain st fid w2 where
    sf: "store_file e clk file (temp_path e clk file)
           (w\<lparr>files := insert (temp_path e clk file) (files w)\<rparr>) = (Inr (st, fid), w2)"
    and cs: "create_and_schedule e clk file cm ps em st fid (seconds ts) w2 = (new_task, w')"
    by blast
  from store_file_large [OF sf big] have st: "st = GDRIVE" and av: "gdrive_service_available e"
    by simp_all
  from store_file_frame [OF sf] have j2: "jobs w2 = jobs w" by simp
  from create_and_schedule_task [OF cs] have
    t1: "storage_type new_task = Some st" and t2: "time_to_print new_task = seconds ts"
    by (metis Task.select_convs(4), metis Task.select_convs(7))
  let ?dl = "\<lparr>job_id = download_job_key (task_id new_task),
                         run_date = (if seconds ts - minutes 10 \<le> now_151 clk
                                     then now_153 clk + seconds 5
                                     else seconds ts - minutes 10),
                         func = PrepareGdriveDownload (task_id new_task) GDRIVE_DOWNLOAD_FULL_PATH\<rparr>"
  let ?pr = "\<lparr>job_id = print_job_key (task_id new_task), run_date = seconds ts,
                      func = PrintFile (task_id new_task) (PRINTER_NAME e)\<rparr>"
  from create_and_schedule_jobs [OF cs] st j2 have j: "jobs w' = add_job ?pr (add_job ?dl (jobs w))"
    by simp
  have app: "jobs w' = jobs w @ [?dl, ?pr]"
    if "download_job_key (task_id new_task) \<notin> set (map job_id (jobs w))"
      and "print_job_key (task_id new_task) \<notin> set (map job_id (jobs w))"
  proof -
    from that(1) have a: "add_job ?dl (jobs w) = jobs w @ [?dl]" by (simp add: add_job_fresh)
    from that(2) job_keys_differ [of "task_id new_task" "task_id new_task"]
    have "job_id ?pr \<notin> set (map job_id (jobs w @ [?dl]))" by auto
    then have "add_job ?pr (jobs w @ [?dl]) = (jobs w @ [?dl]) @ [?pr]" by (rule add_job_fresh)
    with a j show ?thesis by simp
  qed
  from t1 st t2 av j app show ?thesis by blast
qed

theorem add_task_large_file_witness:
  "fst (add_task env_example (clock_example (seconds 2000)) large_file_example 9000 ''color'' ''Letter''
          ''largeuploader@example.com'' world_empty) = Inr large_task_example
   \<and> content_length large_file_example > MAX_FILE_SIZE_BYTES
   \<and> storage_type large_task_example = Some GDRIVE
   \<and> jobs (snd (add_task env_example (clock_example (seconds 2000)) large_file_example 9000
                   ''color'' ''Letter'' ''largeuploader@example.com'' world_empty))
      = [\<lparr>job_id = ''download_task_1'', run_date = seconds 8400,
          func = PrepareGdriveDownload 1 ''uploads/gdrive_downloads''\<rparr>,
         \<lparr>job_id = ''print_task_1'', run_date = seconds 9000,
          func = PrintFile 1 (Some ''TestPrinter'')\<rparr>]"
proof -
  let ?r = "add_task env_example (clock_example (seconds 2000)) large_file_example 9000 ''color'' ''Letter''
          ''largeuploader@example.com'' world_empty"
  have acc: "?r = (Inr large_task_example, snd ?r)"
    using large_example_accepted by (metis prod.collapse)
  have big: "content_length large_file_example > MAX_FILE_SIZE_BYTES"
    by (simp add: large_file_example_def)
  have vals: "task_id large_task_example = 1" "jobs world_empty = []"
    "PRINTER_NAME env_example = Some ''TestPrinter''"
    "GDRIVE_DOWNLOAD_FULL_PATH = ''uploads/gdrive_downloads''"
    "now_151 (clock_example (seconds 2000)) = seconds 2000"
    "seconds 9000 - minutes 10 = seconds 8400" "\<not> seconds 8400 \<le> seconds 2000"
    by (simp_all add: large_task_example_def world_empty_def env_example_def
        GDRIVE_DOWNLOAD_FULL_PATH_def LOCAL_STORAGE_PATH_def os_path_join_def clock_example_def
        seconds_def minutes_def)
  from add_task_large_file [OF acc big] large_example_accepted big
  show ?thesis by (simp add: vals example_keys add_job_def)
qed

section \<open>Small files\<close>

text \<open>
  C9. When a submission whose file is at most the threshold is accepted, the task has
  storage type LOCAL, its file identifier is the permanent local path, that path is on
  disk and the temporary upload path is not (the file was moved), and \<open>add_task\<close> has
  made exactly one scheduler registration, the print job at the print time.
\<close>

theorem add_task_small_file:
  assumes acc: "add_task e clk file ts cm ps em w = (Inr new_task, w')"
    and small: "content_length file \<le> MAX_FILE_SIZE_BYTES"
  shows "storage_type new_task = Some LOCAL
         \<and> file_identifier new_task
             = ''uploads/local_'' @ timestamp_str e (now_115 clk) @ ''_'' @ filename file
         \<and> file_identifier new_task \<in> files w'
         \<and> temp_path e clk file \<notin> files w'
         \<and> jobs w' =
             add_job \<lparr>job_id = print_job_key (task_id new_task), run_date = seconds ts,
                      func = PrintFile (task_id new_task) (PRINTER_NAME e)\<rparr> (jobs w)
         \<and> (print_job_key (task_id new_task) \<notin> set (map job_id (jobs w))
            \<longrightarrow> jobs w' = jobs w @
                  [\<lparr>job_id = print_job_key (task_id new_task), run_date = seconds ts,
                    func = PrintFile (task_id new_task) (PRINTER_NAME e)\<rparr>])"
proof -
  let ?temp = "temp_path e clk file"
  from add_task_accepted [OF acc] obtain st fid w2 where
    sf: "store_file e clk file ?temp (w\<lparr>files := insert ?temp (files w)\<rparr>) = (Inr (st, fid), w2)"
    and cs: "create_and_schedule e clk file cm ps em st fid (seconds ts) w2 = (new_task, w')"
    by blast
  from small have ns: "\<not> content_length file > MAX_FILE_SIZE_BYTES" by simp
  from store_file_small [OF sf ns] have st: "st = LOCAL"
    and fid: "fid = ''uploads/local_'' @ timestamp_str e (now_115 clk) @ ''_'' @ filename file"
    and f2: "files w2 = insert fid (insert ?temp (files w) - {?temp})"
    by simp_all
  from store_file_frame [OF sf] have j2: "jobs w2 = jobs w" by simp
  from create_and_schedule_task [OF cs] have
    t1: "storage_type new_task = Some st" and t2: "file_identifier new_task = fid"
    and f3: "files w' = files w2"
    by (metis Task.select_convs(4), metis Task.select_convs(5), simp)
  let ?pr = "\<lparr>job_id = print_job_key (task_id new_task), run_date = seconds ts,
                      func = PrintFile (task_id new_task) (PRINTER_NAME e)\<rparr>"
  from create_and_schedule_jobs [OF cs] st j2 have j: "jobs w' = add_job ?pr (jobs w)"
    by simp
  have ne: "?temp \<noteq> fid" by (simp add: temp_path_def fid)
  have in': "fid \<in> files w'" and out': "?temp \<notin> files w'"
    using f2 f3 ne by auto
  have app: "jobs w' = jobs w @ [?pr]"
    if "print_job_key (task_id new_task) \<notin> set (map job_id (jobs w))"
    using that j by (simp add: add_job_fresh)
  from t1 st t2 fid in' out' j app show ?thesis by blast
qed

theorem add_task_small_file_witness:
  "fst (add_task env_example (clock_example (seconds 2000)) small_file_example 9000 ''bw'' ''A4''
          ''test@example.com'' world_empty) = Inr small_task_example
   \<and> content_length small_file_example \<le> MAX_FILE_SIZE_BYTES
   \<and> storage_type small_task_example = Some LOCAL
   \<and> ''uploads/local_2000000000_small_test.txt''
        \<in> files (snd (add_task env_example (clock_example (seconds 2000)) small_file_example 9000
                        ''bw'' ''A4'' ''test@example.com'' world_empty))
   \<and> ''uploads/temp_2000000000_small_test.txt''
        \<notin> files (snd (add_task env_example (clock_example (seconds 2000)) small_file_example 9000
                        ''bw'' ''A4'' ''test@example.com'' world_empty))
   \<and> jobs (snd (add_task env_example (clock_example (seconds 2000)) small_file_example 9000
                   ''bw'' ''A4'' ''test@example.com'' world_empty))
      = [\<lparr>job_id = ''print_task_1'', run_date = seconds 9000,
          func = PrintFile 1 (Some ''TestPrinter'')\<rparr>]"
proof -
  let ?r = "add_task env_example (clock_example (seconds 2000)) small_file_example 9000 ''bw'' ''A4''
          ''test@example.com'' world_empty"
  have acc: "?r = (Inr small_task_example, snd ?r)"
    using small_example_accepted by (metis prod.collapse)
  have small: "content_length small_file_example \<le> MAX_FILE_SIZE_BYTES"
    by (simp add: small_file_example_def MAX_FILE_SIZE_BYTES_def)
  have vals: "task_id small_task_example = 1" "jobs world_empty = []"
    "PRINTER_NAME env_example = Some ''TestPrinter''"
    "file_identifier small_task_example = ''uploads/local_2000000000_small_test.txt''"
    "timestamp_str env_example (now_115 (clock_example (seconds 2000))) = ''2000000000''"
    "filename small_file_example = ''small_test.txt''"
    by (simp_all add: small_task_example_def world_empty_def env_example_def clock_example_def
        seconds_def str_int_examples small_file_example_def)
  from add_task_small_file [OF acc small] small_example_accepted small
  show ?thesis by (simp add: vals example_keys example_temp add_job_def)
qed

section \<open>Creation time\<close>

lemma add_task_created_at:
  assumes acc: "add_task e clk file ts cm ps em w = (Inr new_task, w')"
  shows "created_at new_task = created_at_default e"
proof -
  from add_task_accepted [OF acc] obtain st fid w2 where
    cs: "create_and_schedule e clk file cm ps em st fid (seconds ts) w2 = (new_task, w')"
    by blast
  from create_and_schedule_task [OF cs] show ?thesis
    by (metis Task.select_convs(11))
qed

text \<open>
  C6 does not hold of the code. The column default of \<open>created_at\<close> is the value
  \<open>datetime.now(timezone.utc)\<close> had when db.py was imported, not a function called at
  insertion, so every task of a process carries the import time (lemma
  \<open>add_task_created_at\<close>). Here the module was imported at second 1000 and two
  submissions arrive at second 2000: both records carry second 1000.
\<close>

theorem add_task_created_at_is_import_time:
  "fst (add_task env_example (clock_example (seconds 2000)) small_file_example 9000 ''bw'' ''A4''
          ''test@example.com'' world_empty) = Inr small_task_example
   \<and> fst (add_task env_example (clock_example (seconds 2000)) large_file_example 9000 ''color''
            ''Letter'' ''largeuploader@example.com'' world_empty) = Inr large_task_example
   \<and> now_84 (clock_example (seconds 2000)) = seconds 2000
   \<and> created_at small_task_example = seconds 1000
   \<and> created_at large_task_example = seconds 1000
   \<and> created_at_default env_example = seconds 1000"
  using small_example_accepted large_example_accepted
  by (simp add: small_task_example_def large_task_example_def env_example_def clock_example_def)

section \<open>Print-time validation\<close>

lemma add_task_representable_time:
  assumes ts: "datetime_fromtimestamp ts = Inr pdt"
  shows "((cm = ''color'' \<or> cm = ''bw'') \<and> em \<noteq> []
            \<and> store_file e clk file (temp_path e clk file)
                 (w\<lparr>files := insert (temp_path e clk file) (files w)\<rparr>) = (Inr (st, fid), w2)
            \<and> now_128 clk + minutes 1 < pdt
          \<longrightarrow> (\<exists>t w'. add_task e clk file ts cm ps em w = (Inr t, w')
                  \<and> time_to_print t = pdt \<and> db_tasks w' = db_tasks w @ [t]))
         \<and> (pdt < now_128 clk + minutes 1
          \<longrightarrow> (\<exists>f. fst (add_task e clk file ts cm ps em w) = Inl f)
              \<and> db_tasks (snd (add_task e clk file ts cm ps em w)) = db_tasks w
              \<and> jobs (snd (add_task e clk file ts cm ps em w)) = jobs w)
         \<and> ((cm = ''color'' \<or> cm = ''bw'') \<and> em \<noteq> []
            \<and> store_file e clk file (temp_path e clk file)
                 (w\<lparr>files := insert (temp_path e clk file) (files w)\<rparr>) = (Inr (st, fid), w2)
            \<and> pdt < now_128 clk + minutes 1
            \<and> (st = GDRIVE \<or> fid \<notin> undeletable w2)
          \<longrightarrow> fst (add_task e clk file ts cm ps em w)
                = Inl (HTTPException 400
                         ''time_to_print must be in the future (at least 1 minute ahead).''))"
proof (intro conjI impI)
  assume h: "(cm = ''color'' \<or> cm = ''bw'') \<and> em \<noteq> []
            \<and> store_file e clk file (temp_path e clk file)
                 (w\<lparr>files := insert (temp_path e clk file) (files w)\<rparr>) = (Inr (st, fid), w2)
            \<and> now_128 clk + minutes 1 < pdt"
  then have cm: "cm = ''color'' \<or> cm = ''bw''" and em: "em \<noteq> []"
    and sf: "store_file e clk file (temp_path e clk file)
                 (w\<lparr>files := insert (temp_path e clk file) (files w)\<rparr>) = (Inr (st, fid), w2)"
    and far: "now_128 clk + minutes 1 < pdt"
    by simp_all
  obtain t w' where cs: "create_and_schedule e clk file cm ps em st fid pdt w2 = (t, w')"
    by (cases "create_and_schedule e clk file cm ps em st fid pdt w2")
  from add_task_steps [OF cm em sf ts] far cs
  have run: "add_task e clk file ts cm ps em w = (Inr t, w')" by simp
  from create_and_schedule_task [OF cs] have "time_to_print t = pdt" and "db_tasks w' = db_tasks w2 @ [t]"
    by (metis Task.select_convs(7), simp)
  moreover from store_file_frame [OF sf] have "db_tasks w2 = db_tasks w" by simp
  ultimately show "\<exists>t w'. add_task e clk file ts cm ps em w = (Inr t, w')
                  \<and> time_to_print t = pdt \<and> db_tasks w' = db_tasks w @ [t]"
    using run by simp
next
  assume near: "pdt < now_128 clk + minutes 1"
  then have le: "pdt \<le> now_128 clk + minutes 1" by simp
  from add_task_too_near_fails [OF ts le]
  obtain f where f: "fst (add_task e clk file ts cm ps em w) = Inl f" by blast
  then show "\<exists>f. fst (add_task e clk file ts cm ps em w) = Inl f" by blast
  from f have "add_task e clk file ts cm ps em w = (Inl f, snd (add_task e clk file ts cm ps em w))"
    by (metis prod.collapse)
  from add_task_failed_frame [OF this]
  show "db_tasks (snd (add_task e clk file ts cm ps em w)) = db_tasks w"
    and "jobs (snd (add_task e clk file ts cm ps em w)) = jobs w"
    by simp_all
next
  assume h: "(cm = ''color'' \<or> cm = ''bw'') \<and> em \<noteq> []
            \<and> store_file e clk file (temp_path e clk file)
                 (w\<lparr>files := insert (temp_path e clk file) (files w)\<rparr>) = (Inr (st, fid), w2)
            \<and> pdt < now_128 clk + minutes 1
            \<and> (st = GDRIVE \<or> fid \<notin> undeletable w2)"
  then have cm: "cm = ''color'' \<or> cm = ''bw''" and em: "em \<noteq> []"
    and sf: "store_file e clk file (temp_path e clk file)
                 (w\<lparr>files := insert (temp_path e clk file) (files w)\<rparr>) = (Inr (st, fid), w2)"
    and near: "pdt < now_128 clk + minutes 1"
    and ok: "st = GDRIVE \<or> fid \<notin> undeletable w2"
    by simp_all
  from add_task_steps [OF cm em sf ts] near
  have "fst (add_task e clk file ts cm ps em w)
        = Inl (fst (reject_time st fid
                 ''time_to_print must be in the future (at least 1 minute ahead).'' w2))"
    by (simp add: split_beta)
  with reject_time_ok [OF ok]
  show "fst (add_task e clk file ts cm ps em w)
                = Inl (HTTPException 400
                         ''time_to_print must be in the future (at least 1 minute ahead).'')"
    by simp
qed

lemma add_task_value_error_time:
  assumes ts: "datetime_fromtimestamp ts = Inl (ValueError m)"
  shows "(\<exists>f. fst (add_task e clk file ts cm ps em w) = Inl f)
         \<and> db_tasks (snd (add_task e clk file ts cm ps em w)) = db_tasks w
         \<and> jobs (snd (add_task e clk file ts cm ps em w)) = jobs w
         \<and> ((cm = ''color'' \<or> cm = ''bw'') \<and> em \<noteq> []
            \<and> store_file e clk file (temp_path e clk file)
                 (w\<lparr>files := insert (temp_path e clk file) (files w)\<rparr>) = (Inr (st, fid), w2)
            \<and> (st = GDRIVE \<or> fid \<notin> undeletable w2)
          \<longrightarrow> fst (add_task e clk file ts cm ps em w)
                = Inl (HTTPException 400
                         ''Invalid time_to_print_ts. Must be a valid Unix timestamp.''))"
proof (intro conjI impI)
  from add_task_invalid_ts_fails [OF ts]
  obtain f where f: "fst (add_task e clk file ts cm ps em w) = Inl f" by blast
  then show "\<exists>f. fst (add_task e clk file ts cm ps em w) = Inl f" by blast
  from f have "add_task e clk file ts cm ps em w = (Inl f, snd (add_task e clk file ts cm ps em w))"
    by (metis prod.collapse)
  from add_task_failed_frame [OF this]
  show "db_tasks (snd (add_task e clk file ts cm ps em w)) = db_tasks w"
    and "jobs (snd (add_task e clk file ts cm ps em w)) = jobs w"
    by simp_all
next
  assume h: "(cm = ''color'' \<or> cm = ''bw'') \<and> em \<noteq> []
            \<and> store_file e clk file (temp_path e clk file)
                 (w\<lparr>files := insert (temp_path e clk file) (files w)\<rparr>) = (Inr (st, fid), w2)
            \<and> (st = GDRIVE \<or> fid \<notin> undeletable w2)"
  then have cm: "cm = ''color'' \<or> cm = ''bw''" and em: "em \<noteq> []"
    and sf: "store_file e clk file (temp_path e clk file)
                 (w\<lparr>files := insert (temp_path e clk file) (files w)\<rparr>) = (Inr (st, fid), w2)"
    and ok: "st = GDRIVE \<or> fid \<notin> undeletable w2"
    by simp_all
  from add_task_invalid_ts [OF cm em sf ts]
  have "fst (add_task e clk file ts cm ps em w)
        = Inl (fst (reject_time st fid
                 ''Invalid time_to_print_ts. Must be a valid Unix timestamp.'' w2))"
    by (simp add: split_beta)
  with reject_time_ok [OF ok]
  show "fst (add_task e clk file ts cm ps em w)
                = Inl (HTTPException 400
                         ''Invalid time_to_print_ts. Must be a valid Unix timestamp.'')"
    by simp
qed

text \<open>
  C7, as amended. Take a submission that has passed the earlier checks and whose file
  has been stored. When \<open>datetime.fromtimestamp\<close> turns the requested timestamp into an
  instant \<open>pdt\<close>: the submission is accepted, with print time \<open>pdt\<close>, if \<open>pdt\<close> is more
  than 1 minute after the clock read at validation; if \<open>pdt\<close> is less than 1 minute after
  that clock it is rejected, and the rejection is the 400 error "time_to_print must be in
  the future (at least 1 minute ahead)." when the stored file can be removed. When
  \<open>datetime.fromtimestamp\<close> raises ValueError (a year outside 1 to 9999), the submission
  is rejected however far ahead the timestamp is, with the 400 error "Invalid
  time_to_print_ts. Must be a valid Unix timestamp." when the stored file can be removed.
  In both kinds of rejection, whatever the earlier checks did, no task record and no job
  is created. Two inputs are left out: a print time exactly 1 minute ahead, where the
  test \<open>\<le>\<close> of line 128 disagrees with the error text of line 131, and a timestamp on
  which \<open>datetime.fromtimestamp\<close> raises OverflowError or OSError, which line 123 does not
  catch.
\<close>

theorem add_task_time_validation:
  "(datetime_fromtimestamp ts = Inr pdt
    \<longrightarrow> ((cm = ''color'' \<or> cm = ''bw'') \<and> em \<noteq> []
            \<and> store_file e clk file (temp_path e clk file)
                 (w\<lparr>files := insert (temp_path e clk file) (files w)\<rparr>) = (Inr (st, fid), w2)
            \<and> now_128 clk + minutes 1 < pdt
          \<longrightarrow> (\<exists>t w'. add_task e clk file ts cm ps em w = (Inr t, w')
                  \<and> time_to_print t = pdt \<and> db_tasks w' = db_tasks w @ [t]))
         \<and> (pdt < now_128 clk + minutes 1
          \<longrightarrow> (\<exists>f. fst (add_task e clk file ts cm ps em w) = Inl f)
              \<and> db_tasks (snd (add_task e clk file ts cm ps em w)) = db_tasks w
              \<and> jobs (snd (add_task e clk file ts cm ps em w)) = jobs w)
         \<and> ((cm = ''color'' \<or> cm = ''bw'') \<and> em \<noteq> []
            \<and> store_file e clk file (temp_path e clk file)
                 (w\<lparr>files := insert (temp_path e clk file) (files w)\<rparr>) = (Inr (st, fid), w2)
            \<and> pdt < now_128 clk + minutes 1
            \<and> (st = GDRIVE \<or> fid \<notin> undeletable w2)
          \<longrightarrow> fst (add_task e clk file ts cm ps em w)
                = Inl (HTTPException 400
                         ''time_to_print must be in the future (at least 1 minute ahead).'')))
   \<and> (datetime_fromtimestamp ts = Inl (ValueError m)
    \<longrightarrow> (\<exists>f. fst (add_task e clk file ts cm ps em w) = Inl f)
         \<and> db_tasks (snd (add_task e clk file ts cm ps em w)) = db_tasks w
         \<and> jobs (snd (add_task e clk file ts cm ps em w)) = jobs w
         \<and> ((cm = ''color'' \<or> cm = ''bw'') \<and> em \<noteq> []
            \<and> store_file e clk file (temp_path e clk file)
                 (w\<lparr>files := insert (temp_path e clk file) (files w)\<rparr>) = (Inr (st, fid), w2)
            \<and> (st = GDRIVE \<or> fid \<notin> undeletable w2)
          \<longrightarrow> fst (add_task e clk file ts cm ps em w)
                = Inl (HTTPException 400
                         ''Invalid time_to_print_ts. Must be a valid Unix timestamp.'')))"
proof (intro conjI)
  show "datetime_fromtimestamp ts = Inr pdt
    \<longrightarrow> ((cm = ''color'' \<or> cm = ''bw'') \<and> em \<noteq> []
            \<and> store_file e clk file (temp_path e clk file)
                 (w\<lparr>files := insert (temp_path e clk file) (files w)\<rparr>) = (Inr (st, fid), w2)
            \<and> now_128 clk + minutes 1 < pdt
          \<longrightarrow> (\<exists>t w'. add_task e clk file ts cm ps em w = (Inr t, w')
                  \<and> time_to_print t = pdt \<and> db_tasks w' = db_tasks w @ [t]))
         \<and> (pdt < now_128 clk + minutes 1
          \<longrightarrow> (\<exists>f. fst (add_task e clk file ts cm ps em w) = Inl f)
              \<and> db_tasks (snd (add_task e clk file ts cm ps em w)) = db_tasks w
              \<and> jobs (snd (add_task e clk file ts cm ps em w)) = jobs w)
         \<and> ((cm = ''color'' \<or> cm = ''bw'') \<and> em \<noteq> []
            \<and> store_file e clk file (temp_path e clk file)
                 (w\<lparr>files := insert (temp_path e clk file) (files w)\<rparr>) = (Inr (st, fid), w2)
            \<and> pdt < now_128 clk + minutes 1
            \<and> (st = GDRIVE \<or> fid \<notin> undeletable w2)
          \<longrightarrow> fst (add_task e clk file ts cm ps em w)
                = Inl (HTTPException 400
                         ''time_to_print must be in the future (at least 1 minute ahead).''))"
    by (rule impI) (rule add_task_representable_time)
next
  show "datetime_fromtimestamp ts = Inl (ValueError m)
    \<longrightarrow> (\<exists>f. fst (add_task e clk file ts cm ps em w) = Inl f)
         \<and> db_tasks (snd (add_task e clk file ts cm ps em w)) = db_tasks w
         \<and> jobs (snd (add_task e clk file ts cm ps em w)) = jobs w
         \<and> ((cm = ''color'' \<or> cm = ''bw'') \<and> em \<noteq> []
            \<and> store_file e clk file (temp_path e clk file)
                 (w\<lparr>files := insert (temp_path e clk file) (files w)\<rparr>) = (Inr (st, fid), w2)
            \<and> (st = GDRIVE \<or> fid \<notin> undeletable w2)
          \<longrightarrow> fst (add_task e clk file ts cm ps em w)
                = Inl (HTTPException 400
                         ''Invalid time_to_print_ts. Must be a valid Unix timestamp.''))"
    by (rule impI) (rule add_task_value_error_time)
qed

theorem add_task_time_validation_witness:
  "datetime_fromtimestamp 9000 = Inr (seconds 9000)
   \<and> now_128 (clock_example (seconds 2000)) + minutes 1 < seconds 9000
   \<and> (\<exists>t w'. add_task env_example (clock_example (seconds 2000)) small_file_example 9000 ''bw'' ''A4''
                ''test@example.com'' world_empty = (Inr t, w') \<and> time_to_print t = seconds 9000)
   \<and> datetime_fromtimestamp 2030 = Inr (seconds 2030)
   \<and> seconds 2030 < now_128 (clock_example (seconds 2000)) + minutes 1
   \<and> fst (add_task env_example (clock_example (seconds 2000)) small_file_example 2030 ''bw'' ''A4''
            ''test@example.com'' world_empty)
       = Inl (HTTPException 400 ''time_to_print must be in the future (at least 1 minute ahead).'')
   \<and> db_tasks (snd (add_task env_example (clock_example (seconds 2000)) small_file_example 2030
                      ''bw'' ''A4'' ''test@example.com'' world_empty)) = []
   \<and> datetime_fromtimestamp 1000000000000 = Inl (ValueError ''year is out of range'')
   \<and> fst (add_task env_example (clock_example (seconds 2000)) small_file_example 1000000000000
            ''bw'' ''A4'' ''test@example.com'' world_empty)
       = Inl (HTTPException 400 ''Invalid time_to_print_ts. Must be a valid Unix timestamp.'')
   \<and> db_tasks (snd (add_task env_example (clock_example (seconds 2000)) small_file_example
                      1000000000000 ''bw'' ''A4'' ''test@example.com'' world_empty)) = []"
proof -
  let ?clk = "clock_example (seconds 2000)"
  let ?temp = "temp_path env_example ?clk small_file_example"
  let ?w1 = "world_empty\<lparr>files := insert ?temp (files world_empty)\<rparr>"
  obtain st fid w2 where sf: "store_file env_example ?clk small_file_example ?temp ?w1 = (Inr (st, fid), w2)"
    using example_store_small by (metis prod.collapse)
  from small_example_store_world [OF sf] have ok: "st = GDRIVE \<or> fid \<notin> undeletable w2" by simp
  have far: "now_128 ?clk + minutes 1 < seconds 9000" and near: "seconds 2030 < now_128 ?clk + minutes 1"
    by (simp_all add: clock_example_def seconds_def minutes_def)
  have db: "db_tasks world_empty = []" by (simp add: world_empty_def)
  from add_task_time_validation [of 9000 "seconds 9000" "''bw''" "''test@example.com''"
         env_example ?clk small_file_example world_empty st fid w2 "''A4''"]
    example_timestamps(1) sf far
  have a: "\<exists>t w'. add_task env_example ?clk small_file_example 9000 ''bw'' ''A4''
                ''test@example.com'' world_empty = (Inr t, w') \<and> time_to_print t = seconds 9000"
    by auto
  from add_task_time_validation [of 2030 "seconds 2030" "''bw''" "''test@example.com''"
         env_example ?clk small_file_example world_empty st fid w2 "''A4''"]
    example_timestamps(2) sf near ok db
  have b: "fst (add_task env_example ?clk small_file_example 2030 ''bw'' ''A4''
            ''test@example.com'' world_empty)
       = Inl (HTTPException 400 ''time_to_print must be in the future (at least 1 minute ahead).'')
     \<and> db_tasks (snd (add_task env_example ?clk small_file_example 2030
                      ''bw'' ''A4'' ''test@example.com'' world_empty)) = []"
    by auto
  from add_task_time_validation [of 1000000000000 _ "''bw''" "''test@example.com''"
         env_example ?clk small_file_example world_empty st fid w2 "''A4''"
         "''year is out of range''"]
    example_timestamps(4) sf ok db
  have c: "fst (add_task env_example ?clk small_file_example 1000000000000 ''bw'' ''A4''
            ''test@example.com'' world_empty)
       = Inl (HTTPException 400 ''Invalid time_to_print_ts. Must be a valid Unix timestamp.'')
     \<and> db_tasks (snd (add_task env_example ?clk small_file_example 1000000000000
                      ''bw'' ''A4'' ''test@example.com'' world_empty)) = []"
    by auto
  from a b c far near example_timestamps(1,2,4) show ?thesis by blast
qed

text \<open>
  C7 as stated fails in the direction "at least 1 minute ahead implies accepted": a
  timestamp far in the future that \<open>datetime.fromtimestamp\<close> refuses with ValueError is
  rejected, and so is a print time exactly 1 minute after the clock (the test is \<open>\<le>\<close>,
  against the error text of the same branch).
\<close>

theorem add_task_time_validation_counterexample:
  "now_128 (clock_example (seconds 2000)) + minutes 1 \<le> seconds 2060
   \<and> fst (add_task env_example (clock_example (seconds 2000)) small_file_example 2060 ''bw'' ''A4''
          ''test@example.com'' world_empty)
       = Inl (HTTPException 400 ''time_to_print must be in the future (at least 1 minute ahead).'')
   \<and> now_128 (clock_example (seconds 2000)) + minutes 1 \<le> seconds 1000000000000
   \<and> fst (add_task env_example (clock_example (seconds 2000)) small_file_example 1000000000000
            ''bw'' ''A4'' ''test@example.com'' world_empty)
       = Inl (HTTPException 400 ''Invalid time_to_print_ts. Must be a valid Unix timestamp.'')"
  using small_example_rejected [OF example_timestamps(3)] small_example_invalid
  by (simp add: clock_example_def seconds_def minutes_def)

section \<open>Rejected large submissions\<close>

text \<open>
  C10. When a submission with a file larger than the threshold ends in one of the two
  400 errors of print-time validation, the upload had succeeded: the object it created
  is in the remote store afterwards, the remote store has lost nothing, the only change
  on local disk is that the temporary upload path is gone, and no task record and no job
  has been created.
\<close>

theorem add_task_rejected_keeps_remote_object:
  assumes rej: "add_task e clk file ts cm ps em w = (Inl (HTTPException 400 detail), w')"
    and big: "content_length file > MAX_FILE_SIZE_BYTES"
    and det: "detail = ''Invalid time_to_print_ts. Must be a valid Unix timestamp.''
              \<or> detail = ''time_to_print must be in the future (at least 1 minute ahead).''"
  shows "\<exists>gdrive_file_id. files_create e = Inr gdrive_file_id
           \<and> gdrive_file_id \<in> gdrive_files w'
           \<and> gdrive_files w' = insert gdrive_file_id (gdrive_files w)
           \<and> files w' = files w - {temp_path e clk file}
           \<and> db_tasks w' = db_tasks w
           \<and> jobs w' = jobs w"
proof -
  let ?temp = "temp_path e clk file"
  let ?w1 = "w\<lparr>files := insert ?temp (files w)\<rparr>"
  from rej det have cm: "cm = ''color'' \<or> cm = ''bw''" and em: "em \<noteq> []"
    by (auto simp: add_task_def squote_def split: if_splits)
  obtain r w2 where sf: "store_file e clk file ?temp ?w1 = (r, w2)"
    by (cases "store_file e clk file ?temp ?w1")
  show ?thesis
  proof (cases r)
    case (Inl f)
    with rej cm em sf have "f = HTTPException 400 detail"
      by (auto simp: add_task_def Let_def uploads_join temp_path_def)
    moreover from sf Inl have "f \<noteq> HTTPException 400 detail"
      by (auto dest: store_file_failure_not_400)
    ultimately show ?thesis by simp
  next
    case (Inr sp)
    then obtain st fid where sp: "r = Inr (st, fid)" by (cases sp) simp
    from store_file_large [OF sf [unfolded sp] big]
    have st: "st = GDRIVE" and fc: "files_create e = Inr fid"
      and w2: "w2 = ?w1\<lparr>gdrive_files := insert fid (gdrive_files ?w1), files := files ?w1 - {?temp}\<rparr>"
      by simp_all
    from rej cm em sf sp st have "w' = w2"
      by (auto simp: add_task_def Let_def uploads_join temp_path_def reject_time_gdrive
          split: sum.splits exn.splits if_splits prod.splits)
    with w2 fc show ?thesis by auto
  qed
qed

theorem add_task_rejected_keeps_remote_object_witness:
  "fst (add_task env_example (clock_example (seconds 2000)) large_file_example 2030 ''color'' ''Letter''
          ''largeuploader@example.com'' world_empty)
     = Inl (HTTPException 400 ''time_to_print must be in the future (at least 1 minute ahead).'')
   \<and> content_length large_file_example > MAX_FILE_SIZE_BYTES
   \<and> gdrive_files (snd (add_task env_example (clock_example (seconds 2000)) large_file_example 2030
                          ''color'' ''Letter'' ''largeuploader@example.com'' world_empty))
       = {''mock_gdrive_file_id_123''}
   \<and> files (snd (add_task env_example (clock_example (seconds 2000)) large_file_example 2030
                          ''color'' ''Letter'' ''largeuploader@example.com'' world_empty)) = {}
   \<and> db_tasks (snd (add_task env_example (clock_example (seconds 2000)) large_file_example 2030
                          ''color'' ''Letter'' ''largeuploader@example.com'' world_empty)) = []"
proof -
  let ?r = "add_task env_example (clock_example (seconds 2000)) large_file_example 2030 ''color'' ''Letter''
          ''largeuploader@example.com'' world_empty"
  have rej: "?r = (Inl (HTTPException 400 ''time_to_print must be in the future (at least 1 minute ahead).''), snd ?r)"
    using large_example_rejected by (metis prod.collapse)
  have big: "content_length large_file_example > MAX_FILE_SIZE_BYTES"
    by (simp add: large_file_example_def)
  have vals: "files_create env_example = Inr ''mock_gdrive_file_id_123''"
    "gdrive_files world_empty = {}" "files world_empty = {}" "db_tasks world_empty = []"
    by (simp_all add: env_example_def world_empty_def)
  from add_task_rejected_keeps_remote_object [OF rej big] large_example_rejected big
  show ?thesis by (auto simp: vals)
qed

end
